theory Spec2Isabelle
  imports Main "HOL-Library.Word"
begin

unbundle bit_operations_syntax

section \<open>Data\<close>

text \<open>
  The program (\<^verbatim>\<open>main.go\<close>) is a Telegram bot: \<^verbatim>\<open>handleDocument\<close> downloads a
  document with \<^verbatim>\<open>wget\<close>, converts it with \<^verbatim>\<open>ebook-convert\<close>, registers the
  result under a random slug in \<^verbatim>\<open>storage.files\<close> and sends it back;
  \<^verbatim>\<open>startHTTPServer\<close> serves registered files.

  A Go \<^verbatim>\<open>string\<close> is a sequence of bytes, and so is a HOL \<^typ>\<open>string\<close>. A Go
  \<^verbatim>\<open>error\<close> is modelled by the text of its \<^verbatim>\<open>Error()\<close>, and \<^verbatim>\<open>nil\<close> by
  \<^term>\<open>None\<close>. The chat identifier and the Unix time are \<^verbatim>\<open>int64\<close> in the code;
  no arithmetic is done on them, so they are \<^typ>\<open>int\<close> here.
\<close>

type_synonym byte = "8 word"

type_synonym error = string

text \<open>What \<^verbatim>\<open>handleDocument\<close> reads of \<^verbatim>\<open>update.Message\<close>.\<close>

record update =
  chat_id :: int
  file_name :: string
  file_id :: string

text \<open>
  What the bot sends: \<^verbatim>\<open>tgbotapi.NewMessage(chatID, text)\<close> and
  \<^verbatim>\<open>tgbotapi.NewDocument(chatID, FileBytes{Name, Bytes})\<close> with its caption.
\<close>

datatype message =
    TextMessage int string
  | DocumentMessage int string "byte list" string

text \<open>
  Every effect of the program on its surroundings is an event: a call of
  \<^verbatim>\<open>bot.Send\<close> (whatever Telegram then delivers), a line of \<^verbatim>\<open>log.Printf\<close>, a
  call of \<^verbatim>\<open>bot.GetFile\<close>, an external process that ran (its argument vector and
  the error of \<^verbatim>\<open>cmd.Run\<close>), a file such a process wrote, a file \<^verbatim>\<open>os.Remove\<close>
  removed, and an assignment \<^verbatim>\<open>storage.files[slug] = path\<close>.
\<close>

datatype event =
    Sent message
  | Logged string
  | GetFile string
  | Ran "string list" "error option"
  | Wrote string "byte list"
  | Removed string
  | Inserted string string

text \<open>
  The state: the map \<^verbatim>\<open>storage.files\<close>, the files on disk (path to contents; only
  regular files, which the process may read and remove), and the events so far,
  oldest first. The mutex of \<^verbatim>\<open>FileStorage\<close> has no counterpart: one call of
  \<^verbatim>\<open>handleDocument\<close> or of the HTTP handler is modelled as running alone.
\<close>

record world =
  files :: "string \<rightharpoonup> string"
  disk :: "string \<rightharpoonup> byte list"
  trace :: "event list"

text \<open>
  What an external process did: the error of \<^verbatim>\<open>cmd.Run\<close> (a non-zero exit status,
  or a binary that did not start), its combined standard output and error, and what
  it left at its destination path (\<^term>\<open>None\<close>: the path is as it was). A process
  touches no other path.
\<close>

record outcome =
  exit_err :: "error option"
  combined :: string
  written :: "byte list option"

text \<open>
  What one run of \<^verbatim>\<open>handleDocument\<close> gets from outside: \<^verbatim>\<open>bot.Token\<close>, the
  variable \<^verbatim>\<open>SERVER_HOST\<close>, the answer of \<^verbatim>\<open>bot.GetFile\<close> (an error or the file's
  \<^verbatim>\<open>FilePath\<close>), \<^verbatim>\<open>time.Now().Unix()\<close>, the outcomes of the two processes, the
  entropy source of \<^verbatim>\<open>crypto/rand\<close> (an error or a stream of bytes), and the error
  of the \<^verbatim>\<open>bot.Send\<close> that uploads the document.
\<close>

record env =
  token :: string
  server_host :: string
  get_file :: "error + string"
  now_unix :: int
  wget :: outcome
  ebook_convert :: outcome
  entropy :: "error + (nat \<Rightarrow> byte)"
  send_doc :: "error option"

section \<open>String constants of the program\<close>

definition uploadDir :: string where
  "uploadDir = ''./uploads''"

text \<open>The UTF-8 bytes of "Starting the conversion of the file..." (line 100).\<close>

definition start_text :: string where
  "start_text =
    [CHR 0xD0, CHR 0x9D, CHR 0xD0, CHR 0xB0, CHR 0xD1, CHR 0x87, CHR 0xD0, CHR 0xB8, CHR 0xD0,
     CHR 0xBD, CHR 0xD0, CHR 0xB0, CHR 0xD1, CHR 0x8E, CHR '' '', CHR 0xD0, CHR 0xBA, CHR 0xD0,
     CHR 0xBE, CHR 0xD0, CHR 0xBD, CHR 0xD0, CHR 0xB2, CHR 0xD0, CHR 0xB5, CHR 0xD1, CHR 0x80,
     CHR 0xD1, CHR 0x82, CHR 0xD0, CHR 0xB0, CHR 0xD1, CHR 0x86, CHR 0xD0, CHR 0xB8, CHR 0xD1,
     CHR 0x8E, CHR '' '', CHR 0xD1, CHR 0x84, CHR 0xD0, CHR 0xB0, CHR 0xD0, CHR 0xB9, CHR 0xD0,
     CHR 0xBB, CHR 0xD0, CHR 0xB0, CHR ''.'', CHR ''.'', CHR ''.'']"

text \<open>The UTF-8 bytes of "Please send a file in FB2 or TXT format" (line 95).\<close>

definition reject_text :: string where
  "reject_text =
    [CHR 0xD0, CHR 0x9F, CHR 0xD0, CHR 0xBE, CHR 0xD0, CHR 0xB6, CHR 0xD0, CHR 0xB0, CHR 0xD0,
     CHR 0xBB, CHR 0xD1, CHR 0x83, CHR 0xD0, CHR 0xB9, CHR 0xD1, CHR 0x81, CHR 0xD1, CHR 0x82,
     CHR 0xD0, CHR 0xB0, CHR '','', CHR '' '', CHR 0xD0, CHR 0xBE, CHR 0xD1, CHR 0x82,
     CHR 0xD0, CHR 0xBF, CHR 0xD1, CHR 0x80, CHR 0xD0, CHR 0xB0, CHR 0xD0, CHR 0xB2, CHR 0xD1,
     CHR 0x8C, CHR 0xD1, CHR 0x82, CHR 0xD0, CHR 0xB5, CHR '' '', CHR 0xD1, CHR 0x84, CHR 0xD0,
     CHR 0xB0, CHR 0xD0, CHR 0xB9, CHR 0xD0, CHR 0xBB, CHR '' '', CHR 0xD0, CHR 0xB2,
     CHR '' '', CHR 0xD1, CHR 0x84, CHR 0xD0, CHR 0xBE, CHR 0xD1, CHR 0x80, CHR 0xD0, CHR 0xBC,
     CHR 0xD0, CHR 0xB0, CHR 0xD1, CHR 0x82, CHR 0xD0, CHR 0xB5, CHR '' '', CHR ''F'',
     CHR ''B'', CHR ''2'', CHR '' '', CHR 0xD0, CHR 0xB8, CHR 0xD0, CHR 0xBB, CHR 0xD0,
     CHR 0xB8, CHR '' '', CHR ''T'', CHR ''X'', CHR ''T'']"

text \<open>The UTF-8 bytes of "An error occurred while processing the file. Please try again." (line 229).\<close>

definition failure_text :: string where
  "failure_text =
    [CHR 0xD0, CHR 0x9F, CHR 0xD1, CHR 0x80, CHR 0xD0, CHR 0xBE, CHR 0xD0, CHR 0xB8, CHR 0xD0,
     CHR 0xB7, CHR 0xD0, CHR 0xBE, CHR 0xD1, CHR 0x88, CHR 0xD0, CHR 0xBB, CHR 0xD0, CHR 0xB0,
     CHR '' '', CHR 0xD0, CHR 0xBE, CHR 0xD1, CHR 0x88, CHR 0xD0, CHR 0xB8, CHR 0xD0, CHR 0xB1,
     CHR 0xD0, CHR 0xBA, CHR 0xD0, CHR 0xB0, CHR '' '', CHR 0xD0, CHR 0xBF, CHR 0xD1, CHR 0x80,
     CHR 0xD0, CHR 0xB8, CHR '' '', CHR 0xD0, CHR 0xBE, CHR 0xD0, CHR 0xB1, CHR 0xD1, CHR 0x80,
     CHR 0xD0, CHR 0xB0, CHR 0xD0, CHR 0xB1, CHR 0xD0, CHR 0xBE, CHR 0xD1, CHR 0x82, CHR 0xD0,
     CHR 0xBA, CHR 0xD0, CHR 0xB5, CHR '' '', CHR 0xD1, CHR 0x84, CHR 0xD0, CHR 0xB0, CHR 0xD0,
     CHR 0xB9, CHR 0xD0, CHR 0xBB, CHR 0xD0, CHR 0xB0, CHR ''.'', CHR '' '', CHR 0xD0,
     CHR 0x9F, CHR 0xD0, CHR 0xBE, CHR 0xD0, CHR 0xB6, CHR 0xD0, CHR 0xB0, CHR 0xD0, CHR 0xBB,
     CHR 0xD1, CHR 0x83, CHR 0xD0, CHR 0xB9, CHR 0xD1, CHR 0x81, CHR 0xD1, CHR 0x82, CHR 0xD0,
     CHR 0xB0, CHR '','', CHR '' '', CHR 0xD0, CHR 0xBF, CHR 0xD0, CHR 0xBE, CHR 0xD0,
     CHR 0xBF, CHR 0xD1, CHR 0x80, CHR 0xD0, CHR 0xBE, CHR 0xD0, CHR 0xB1, CHR 0xD1, CHR 0x83,
     CHR 0xD0, CHR 0xB9, CHR 0xD1, CHR 0x82, CHR 0xD0, CHR 0xB5, CHR '' '', CHR 0xD0, CHR 0xB5,
     CHR 0xD1, CHR 0x89, CHR 0xD0, CHR 0xB5, CHR '' '', CHR 0xD1, CHR 0x80, CHR 0xD0, CHR 0xB0,
     CHR 0xD0, CHR 0xB7, CHR ''.'']"

text \<open>The UTF-8 bytes of "Conversion finished. The file can be downloaded at the link:" and a newline (line 147).\<close>

definition done_text :: string where
  "done_text =
    [CHR 0xD0, CHR 0x9A, CHR 0xD0, CHR 0xBE, CHR 0xD0, CHR 0xBD, CHR 0xD0, CHR 0xB2, CHR 0xD0,
     CHR 0xB5, CHR 0xD1, CHR 0x80, CHR 0xD1, CHR 0x82, CHR 0xD0, CHR 0xB0, CHR 0xD1, CHR 0x86,
     CHR 0xD0, CHR 0xB8, CHR 0xD1, CHR 0x8F, CHR '' '', CHR 0xD0, CHR 0xB7, CHR 0xD0, CHR 0xB0,
     CHR 0xD0, CHR 0xB2, CHR 0xD0, CHR 0xB5, CHR 0xD1, CHR 0x80, CHR 0xD1, CHR 0x88, CHR 0xD0,
     CHR 0xB5, CHR 0xD0, CHR 0xBD, CHR 0xD0, CHR 0xB0, CHR ''.'', CHR '' '', CHR 0xD0,
     CHR 0xA1, CHR 0xD0, CHR 0xBA, CHR 0xD0, CHR 0xB0, CHR 0xD1, CHR 0x87, CHR 0xD0, CHR 0xB0,
     CHR 0xD1, CHR 0x82, CHR 0xD1, CHR 0x8C, CHR '' '', CHR 0xD1, CHR 0x84, CHR 0xD0, CHR 0xB0,
     CHR 0xD0, CHR 0xB9, CHR 0xD0, CHR 0xBB, CHR '' '', CHR 0xD0, CHR 0xBC, CHR 0xD0, CHR 0xBE,
     CHR 0xD0, CHR 0xB6, CHR 0xD0, CHR 0xBD, CHR 0xD0, CHR 0xBE, CHR '' '', CHR 0xD0, CHR 0xBF,
     CHR 0xD0, CHR 0xBE, CHR '' '', CHR 0xD1, CHR 0x81, CHR 0xD1, CHR 0x81, CHR 0xD1, CHR 0x8B,
     CHR 0xD0, CHR 0xBB, CHR 0xD0, CHR 0xBA, CHR 0xD0, CHR 0xB5, CHR '':'', CHR 0x0A]"

text \<open>The UTF-8 bytes of "Here is your book in MOBI format" (line 221).\<close>

definition caption_text :: string where
  "caption_text =
    [CHR 0xD0, CHR 0x92, CHR 0xD0, CHR 0xBE, CHR 0xD1, CHR 0x82, CHR '' '', CHR 0xD0, CHR 0xB2,
     CHR 0xD0, CHR 0xB0, CHR 0xD1, CHR 0x88, CHR 0xD0, CHR 0xB0, CHR '' '', CHR 0xD0, CHR 0xBA,
     CHR 0xD0, CHR 0xBD, CHR 0xD0, CHR 0xB8, CHR 0xD0, CHR 0xB3, CHR 0xD0, CHR 0xB0, CHR '' '',
     CHR 0xD0, CHR 0xB2, CHR '' '', CHR 0xD1, CHR 0x84, CHR 0xD0, CHR 0xBE, CHR 0xD1, CHR 0x80,
     CHR 0xD0, CHR 0xBC, CHR 0xD0, CHR 0xB0, CHR 0xD1, CHR 0x82, CHR 0xD0, CHR 0xB5, CHR '' '',
     CHR ''M'', CHR ''O'', CHR ''B'', CHR ''I'']"

text \<open>The UTF-8 bytes of "Error getting the file: " (line 105).\<close>

definition log_getfile :: string where
  "log_getfile =
    [CHR 0xD0, CHR 0x9E, CHR 0xD1, CHR 0x88, CHR 0xD0, CHR 0xB8, CHR 0xD0, CHR 0xB1, CHR 0xD0,
     CHR 0xBA, CHR 0xD0, CHR 0xB0, CHR '' '', CHR 0xD0, CHR 0xBF, CHR 0xD0, CHR 0xBE, CHR 0xD0,
     CHR 0xBB, CHR 0xD1, CHR 0x83, CHR 0xD1, CHR 0x87, CHR 0xD0, CHR 0xB5, CHR 0xD0, CHR 0xBD,
     CHR 0xD0, CHR 0xB8, CHR 0xD1, CHR 0x8F, CHR '' '', CHR 0xD1, CHR 0x84, CHR 0xD0, CHR 0xB0,
     CHR 0xD0, CHR 0xB9, CHR 0xD0, CHR 0xBB, CHR 0xD0, CHR 0xB0, CHR '':'', CHR '' '']"

text \<open>The UTF-8 bytes of "Error saving the file: " (line 117).\<close>

definition log_save :: string where
  "log_save =
    [CHR 0xD0, CHR 0x9E, CHR 0xD1, CHR 0x88, CHR 0xD0, CHR 0xB8, CHR 0xD0, CHR 0xB1, CHR 0xD0,
     CHR 0xBA, CHR 0xD0, CHR 0xB0, CHR '' '', CHR 0xD1, CHR 0x81, CHR 0xD0, CHR 0xBE, CHR 0xD1,
     CHR 0x85, CHR 0xD1, CHR 0x80, CHR 0xD0, CHR 0xB0, CHR 0xD0, CHR 0xBD, CHR 0xD0, CHR 0xB5,
     CHR 0xD0, CHR 0xBD, CHR 0xD0, CHR 0xB8, CHR 0xD1, CHR 0x8F, CHR '' '', CHR 0xD1, CHR 0x84,
     CHR 0xD0, CHR 0xB0, CHR 0xD0, CHR 0xB9, CHR 0xD0, CHR 0xBB, CHR 0xD0, CHR 0xB0, CHR '':'',
     CHR '' '']"

text \<open>The UTF-8 bytes of "Conversion error: " (line 125).\<close>

definition log_convert :: string where
  "log_convert =
    [CHR 0xD0, CHR 0x9E, CHR 0xD1, CHR 0x88, CHR 0xD0, CHR 0xB8, CHR 0xD0, CHR 0xB1, CHR 0xD0,
     CHR 0xBA, CHR 0xD0, CHR 0xB0, CHR '' '', CHR 0xD0, CHR 0xBA, CHR 0xD0, CHR 0xBE, CHR 0xD0,
     CHR 0xBD, CHR 0xD0, CHR 0xB2, CHR 0xD0, CHR 0xB5, CHR 0xD1, CHR 0x80, CHR 0xD1, CHR 0x82,
     CHR 0xD0, CHR 0xB0, CHR 0xD1, CHR 0x86, CHR 0xD0, CHR 0xB8, CHR 0xD0, CHR 0xB8, CHR '':'',
     CHR '' '']"

text \<open>The UTF-8 bytes of "Error generating the slug: " (line 133).\<close>

definition log_slug :: string where
  "log_slug =
    [CHR 0xD0, CHR 0x9E, CHR 0xD1, CHR 0x88, CHR 0xD0, CHR 0xB8, CHR 0xD0, CHR 0xB1, CHR 0xD0,
     CHR 0xBA, CHR 0xD0, CHR 0xB0, CHR '' '', CHR 0xD0, CHR 0xB3, CHR 0xD0, CHR 0xB5, CHR 0xD0,
     CHR 0xBD, CHR 0xD0, CHR 0xB5, CHR 0xD1, CHR 0x80, CHR 0xD0, CHR 0xB0, CHR 0xD1, CHR 0x86,
     CHR 0xD0, CHR 0xB8, CHR 0xD0, CHR 0xB8, CHR '' '', CHR ''s'', CHR ''l'', CHR ''u'',
     CHR ''g'', CHR '':'', CHR '' '']"

text \<open>The UTF-8 bytes of "Error sending the file: " (line 153).\<close>

definition log_send :: string where
  "log_send =
    [CHR 0xD0, CHR 0x9E, CHR 0xD1, CHR 0x88, CHR 0xD0, CHR 0xB8, CHR 0xD0, CHR 0xB1, CHR 0xD0,
     CHR 0xBA, CHR 0xD0, CHR 0xB0, CHR '' '', CHR 0xD0, CHR 0xBE, CHR 0xD1, CHR 0x82, CHR 0xD0,
     CHR 0xBF, CHR 0xD1, CHR 0x80, CHR 0xD0, CHR 0xB0, CHR 0xD0, CHR 0xB2, CHR 0xD0, CHR 0xBA,
     CHR 0xD0, CHR 0xB8, CHR '' '', CHR 0xD1, CHR 0x84, CHR 0xD0, CHR 0xB0, CHR 0xD0, CHR 0xB9,
     CHR 0xD0, CHR 0xBB, CHR 0xD0, CHR 0xB0, CHR '':'', CHR '' '']"

text \<open>The UTF-8 bytes of "Error deleting the file " (line 236).\<close>

definition log_remove :: string where
  "log_remove =
    [CHR 0xD0, CHR 0x9E, CHR 0xD1, CHR 0x88, CHR 0xD0, CHR 0xB8, CHR 0xD0, CHR 0xB1, CHR 0xD0,
     CHR 0xBA, CHR 0xD0, CHR 0xB0, CHR '' '', CHR 0xD1, CHR 0x83, CHR 0xD0, CHR 0xB4, CHR 0xD0,
     CHR 0xB0, CHR 0xD0, CHR 0xBB, CHR 0xD0, CHR 0xB5, CHR 0xD0, CHR 0xBD, CHR 0xD0, CHR 0xB8,
     CHR 0xD1, CHR 0x8F, CHR '' '', CHR 0xD1, CHR 0x84, CHR 0xD0, CHR 0xB0, CHR 0xD0, CHR 0xB9,
     CHR 0xD0, CHR 0xBB, CHR 0xD0, CHR 0xB0, CHR '' '']"

text \<open>The UTF-8 bytes of "conversion error: " (line 204).\<close>

definition convert_err :: string where
  "convert_err =
    [CHR 0xD0, CHR 0xBE, CHR 0xD1, CHR 0x88, CHR 0xD0, CHR 0xB8, CHR 0xD0, CHR 0xB1, CHR 0xD0,
     CHR 0xBA, CHR 0xD0, CHR 0xB0, CHR '' '', CHR 0xD0, CHR 0xBA, CHR 0xD0, CHR 0xBE, CHR 0xD0,
     CHR 0xBD, CHR 0xD0, CHR 0xB2, CHR 0xD0, CHR 0xB5, CHR 0xD1, CHR 0x80, CHR 0xD1, CHR 0x82,
     CHR 0xD0, CHR 0xB0, CHR 0xD1, CHR 0x86, CHR 0xD0, CHR 0xB8, CHR 0xD0, CHR 0xB8, CHR '':'',
     CHR '' '']"

section \<open>Library functions the program calls\<close>

text \<open>
  The functions of the Go standard library and of the Telegram client that the program
  calls are modelled by what they compute, on Unix (separator \<^verbatim>\<open>/\<close>).
\<close>

subsection \<open>\<^verbatim>\<open>fmt\<close>: the verb \<^verbatim>\<open>%d\<close>\<close>

fun show_nat :: "nat \<Rightarrow> string" where
  "show_nat n =
     (if n < 10 then [''0123456789'' ! n]
      else show_nat (n div 10) @ [''0123456789'' ! (n mod 10)])"

declare show_nat.simps [simp del]

definition show_int :: "int \<Rightarrow> string" where
  "show_int i = (if i < 0 then CHR ''-'' # show_nat (nat (- i)) else show_nat (nat i))"

subsection \<open>\<^verbatim>\<open>strings\<close>\<close>

definition HasPrefix :: "string \<Rightarrow> string \<Rightarrow> bool" where
  "HasPrefix s p = (length p \<le> length s \<and> take (length p) s = p)"

definition HasSuffix :: "string \<Rightarrow> string \<Rightarrow> bool" where
  "HasSuffix s suf = (length suf \<le> length s \<and> drop (length s - length suf) s = suf)"

definition TrimPrefix :: "string \<Rightarrow> string \<Rightarrow> string" where
  "TrimPrefix s p = (if HasPrefix s p then drop (length p) s else s)"

definition TrimSuffix :: "string \<Rightarrow> string \<Rightarrow> string" where
  "TrimSuffix s suf = (if HasSuffix s suf then take (length s - length suf) s else s)"

text \<open>
  \<^verbatim>\<open>strings.ToLower\<close> on the ASCII letters. The program only compares the result
  with \<^verbatim>\<open>.fb2\<close> and \<^verbatim>\<open>.txt\<close>; no character outside ASCII has one of
  \<^verbatim>\<open>f b t x\<close> as its lower case, and every other byte sequence is mapped to one
  that is not ASCII, so the comparison comes out as in Go for every file name.
\<close>

definition to_lower_char :: "char \<Rightarrow> char" where
  "to_lower_char c =
     (let n = (of_char c :: nat) in if 65 \<le> n \<and> n \<le> 90 then char_of (n + 32) else c)"

definition ToLower :: "string \<Rightarrow> string" where
  "ToLower s = map to_lower_char s"

subsection \<open>\<^verbatim>\<open>path/filepath\<close>\<close>

text \<open>
  \<^verbatim>\<open>filepath.Ext\<close> scans the path from its end, stops at a separator and returns the
  suffix that starts at the first dot it meets: \<^term>\<open>ext_scan\<close> walks the reversed
  path and collects the characters it has passed.
\<close>

fun ext_scan :: "string \<Rightarrow> string \<Rightarrow> string" where
  "ext_scan [] acc = ''''"
| "ext_scan (c # cs) acc =
     (if c = CHR ''/'' then ''''
      else if c = CHR ''.'' then c # acc
      else ext_scan cs (c # acc))"

definition Ext :: "string \<Rightarrow> string" where
  "Ext path = ext_scan (rev path) []"

text \<open>
  \<^verbatim>\<open>filepath.Base\<close>: the empty path gives a dot; trailing separators are dropped; the
  result is what follows the last separator, or a separator when nothing is left.
\<close>

definition Base :: "string \<Rightarrow> string" where
  "Base path =
     (if path = '''' then ''.''
      else
        let p = rev (dropWhile (\<lambda>c. c = CHR ''/'') (rev path));
            e = rev (takeWhile (\<lambda>c. c \<noteq> CHR ''/'') (rev p))
        in if e = '''' then ''/'' else e)"

text \<open>
  \<^verbatim>\<open>filepath.Clean\<close> works on the elements between separators: an empty element
  and a dot are dropped; a double dot removes the element before it when there is one
  that is not itself a double dot, is dropped at the root, and is kept otherwise; the
  remaining elements are joined by single separators, and an empty result is a dot.
  \<^term>\<open>clean_elem\<close> keeps the elements written so far, last one first.
\<close>

fun split_sep :: "string \<Rightarrow> string list" where
  "split_sep [] = [[]]"
| "split_sep (c # cs) =
     (if c = CHR ''/'' then [] # split_sep cs
      else (case split_sep cs of [] \<Rightarrow> [[c]] | x # xs \<Rightarrow> (c # x) # xs))"

fun join_sep :: "string list \<Rightarrow> string" where
  "join_sep [] = ''''"
| "join_sep [x] = x"
| "join_sep (x # y # ys) = x @ CHR ''/'' # join_sep (y # ys)"

definition clean_elem :: "bool \<Rightarrow> string list \<Rightarrow> string \<Rightarrow> string list" where
  "clean_elem rooted out e =
     (if e = '''' \<or> e = ''.'' then out
      else if e = ''..'' then
        (case out of
           [] \<Rightarrow> if rooted then [] else [e]
         | t # ts \<Rightarrow> if t = ''..'' then e # out else ts)
      else e # out)"

definition Clean :: "string \<Rightarrow> string" where
  "Clean path =
     (if path = '''' then ''.''
      else
        let rooted = (hd path = CHR ''/'');
            out = join_sep (rev (foldl (clean_elem rooted) [] (split_sep path)))
        in if rooted then CHR ''/'' # out else if out = '''' then ''.'' else out)"

text \<open>\<^verbatim>\<open>filepath.Join\<close> of two elements: empty elements are ignored, the rest is
  joined by a separator and cleaned.\<close>

definition Join :: "string \<Rightarrow> string \<Rightarrow> string" where
  "Join a b =
     (if a \<noteq> '''' then Clean (a @ CHR ''/'' # b)
      else if b \<noteq> '''' then Clean b
      else '''')"

subsection \<open>\<^verbatim>\<open>encoding/base64\<close>: \<^verbatim>\<open>RawURLEncoding\<close>\<close>

definition encodeURL :: string where
  "encodeURL = ''ABCDEFGHIJKLMNOPQRSTUVWXYZabcdefghijklmnopqrstuvwxyz0123456789-_''"

definition enc :: "64 word \<Rightarrow> char" where
  "enc v = encodeURL ! unat (v AND 0x3F)"

text \<open>Three bytes give four characters; a rest of one or two bytes gives two or three
  characters, and the raw encoding adds no padding.\<close>

fun EncodeToString :: "byte list \<Rightarrow> string" where
  "EncodeToString (a # b # c # src) =
     (let val = push_bit 16 (ucast a) OR push_bit 8 (ucast b) OR ucast c
      in enc (drop_bit 18 val) # enc (drop_bit 12 val) # enc (drop_bit 6 val) # enc val #
         EncodeToString src)"
| "EncodeToString [a, b] =
     (let val = push_bit 16 (ucast a) OR push_bit 8 (ucast b)
      in [enc (drop_bit 18 val), enc (drop_bit 12 val), enc (drop_bit 6 val)])"
| "EncodeToString [a] =
     (let val = push_bit 16 (ucast a)
      in [enc (drop_bit 18 val), enc (drop_bit 12 val)])"
| "EncodeToString [] = ''''"

subsection \<open>\<^verbatim>\<open>crypto/rand\<close>\<close>

text \<open>\<^verbatim>\<open>rand.Read(b)\<close> fills the whole of \<^verbatim>\<open>b\<close> from the entropy source, or
  returns its error.\<close>

definition rand_Read :: "error + (nat \<Rightarrow> byte) \<Rightarrow> byte list \<Rightarrow> byte list \<times> error option" where
  "rand_Read src b =
     (case src of
        Inl err \<Rightarrow> (b, Some err)
      | Inr f \<Rightarrow> (map f [0..<length b], None))"

subsection \<open>The Telegram client\<close>

text \<open>\<^verbatim>\<open>File.Link(token)\<close> formats \<^verbatim>\<open>https://api.telegram.org/file/bot%s/%s\<close> with
  the token and the file's path.\<close>

definition Link :: "string \<Rightarrow> string \<Rightarrow> string" where
  "Link file_path tok = ''https://api.telegram.org/file/bot'' @ tok @ ''/'' @ file_path"

section \<open>The registry\<close>

text \<open>\<^verbatim>\<open>storage.files[slug] = outputPath\<close> (lines 139 to 141) and
  \<^verbatim>\<open>filePath, exists := storage.files[slug]\<close> (lines 168 to 170): a missing key reads
  as the empty string and \<^verbatim>\<open>false\<close>.\<close>

definition insert_file :: "string \<Rightarrow> string \<Rightarrow> (string \<rightharpoonup> string) \<Rightarrow> (string \<rightharpoonup> string)" where
  "insert_file slug path m = m(slug \<mapsto> path)"

definition lookup_file :: "(string \<rightharpoonup> string) \<Rightarrow> string \<Rightarrow> string \<times> bool" where
  "lookup_file m slug = (case m slug of None \<Rightarrow> ('''', False) | Some path \<Rightarrow> (path, True))"

section \<open>Effects\<close>

text \<open>
  An event changes the state in one way: a written file appears on disk with its
  contents, a removed file disappears, an insertion overwrites the registry at its
  slug; the other events leave disk and registry alone. \<^term>\<open>emit\<close> performs an
  event and records it, and \<^term>\<open>replay\<close> performs a list of events in order.
\<close>

fun apply_event :: "event \<Rightarrow> world \<Rightarrow> world" where
  "apply_event (Wrote p b) w = w\<lparr>disk := (disk w)(p \<mapsto> b)\<rparr>"
| "apply_event (Removed p) w = w\<lparr>disk := (disk w)(p := None)\<rparr>"
| "apply_event (Inserted s p) w = w\<lparr>files := insert_file s p (files w)\<rparr>"
| "apply_event (Sent m) w = w"
| "apply_event (Logged l) w = w"
| "apply_event (GetFile f) w = w"
| "apply_event (Ran argv err) w = w"

definition emit :: "event \<Rightarrow> world \<Rightarrow> world" where
  "emit e w = (apply_event e w)\<lparr>trace := trace w @ [e]\<rparr>"

definition replay :: "event list \<Rightarrow> world \<Rightarrow> world" where
  "replay es w = foldl (\<lambda>v e. emit e v) w es"

definition bot_Send :: "message \<Rightarrow> world \<Rightarrow> world" where
  "bot_Send m w = emit (Sent m) w"

definition log_Printf :: "string \<Rightarrow> world \<Rightarrow> world" where
  "log_Printf line w = emit (Logged line) w"

text \<open>\<^verbatim>\<open>os.Remove\<close> removes a file that is there and fails on one that is not.\<close>

definition os_Remove :: "string \<Rightarrow> world \<Rightarrow> error option \<times> world" where
  "os_Remove name w =
     (if disk w name = None
      then (Some (''remove '' @ name @ '': no such file or directory''), w)
      else (None, emit (Removed name) w))"

definition os_ReadFile :: "string \<Rightarrow> world \<Rightarrow> error + byte list" where
  "os_ReadFile name w =
     (case disk w name of
        None \<Rightarrow> Inl (''open '' @ name @ '': no such file or directory'')
      | Some b \<Rightarrow> Inr b)"

text \<open>A process runs to its end: it leaves its file at the destination, if it writes
  one, and \<^verbatim>\<open>cmd.Run\<close> returns.\<close>

definition run_cmd :: "string list \<Rightarrow> string \<Rightarrow> outcome \<Rightarrow> world \<Rightarrow> world" where
  "run_cmd argv dest oc w =
     emit (Ran argv (exit_err oc))
       (case written oc of None \<Rightarrow> w | Some b \<Rightarrow> emit (Wrote dest b) w)"

section \<open>The pipeline\<close>

definition generateSlug :: "error + (nat \<Rightarrow> byte) \<Rightarrow> string \<times> error option" where
  "generateSlug src =
     (case rand_Read src (replicate 3 0) of
        (b, Some err) \<Rightarrow> ('''', Some err)
      | (b, None) \<Rightarrow> (take 3 (EncodeToString b), None))"

definition downloadFile :: "env \<Rightarrow> string \<Rightarrow> string \<Rightarrow> world \<Rightarrow> error option \<times> world" where
  "downloadFile env url filepath w =
     (exit_err (wget env), run_cmd [''wget'', ''-O'', filepath, url] filepath (wget env) w)"

definition convertFile :: "env \<Rightarrow> string \<Rightarrow> string \<Rightarrow> world \<Rightarrow> error option \<times> world" where
  "convertFile env inputPath outputPath w =
     (let w1 = run_cmd [''ebook-convert'', inputPath, outputPath,
                        ''--output-profile'', ''kindle'', ''--mobi-file-type'', ''both'']
                 outputPath (ebook_convert env) w
      in case exit_err (ebook_convert env) of
           Some err \<Rightarrow>
             (Some (convert_err @ err @ '', output: '' @ combined (ebook_convert env)), w1)
         | None \<Rightarrow> (None, w1))"

definition sendConvertedFile :: "env \<Rightarrow> int \<Rightarrow> string \<Rightarrow> world \<Rightarrow> error option \<times> world" where
  "sendConvertedFile env chatID filePath w =
     (case os_ReadFile filePath w of
        Inl err \<Rightarrow> (Some err, w)
      | Inr fileBytes \<Rightarrow>
          (send_doc env,
           bot_Send (DocumentMessage chatID (Base filePath) fileBytes caption_text) w))"

definition sendErrorMessage :: "int \<Rightarrow> world \<Rightarrow> world" where
  "sendErrorMessage chatID w = bot_Send (TextMessage chatID failure_text) w"

fun cleanupFiles :: "string list \<Rightarrow> world \<Rightarrow> world" where
  "cleanupFiles [] w = w"
| "cleanupFiles (file # rest) w =
     (case os_Remove file w of
        (Some err, w1) \<Rightarrow> cleanupFiles rest (log_Printf (log_remove @ file @ '': '' @ err) w1)
      | (None, w1) \<Rightarrow> cleanupFiles rest w1)"

text \<open>The two paths of lines 110 to 113.\<close>

definition inputPath_of :: "int \<Rightarrow> string \<Rightarrow> string" where
  "inputPath_of timeStamp name = Join uploadDir (show_int timeStamp @ ''_'' @ name)"

definition outputPath_of :: "int \<Rightarrow> string \<Rightarrow> string" where
  "outputPath_of timeStamp name =
     Join uploadDir (show_int timeStamp @ ''_'' @ TrimSuffix name (Ext name) @ ''.mobi'')"

definition handleDocument :: "env \<Rightarrow> update \<Rightarrow> world \<Rightarrow> world" where
  "handleDocument env upd w =
     (let chatID = chat_id upd;
          fileExt = ToLower (Ext (file_name upd))
      in
      if fileExt \<noteq> ''.fb2'' \<and> fileExt \<noteq> ''.txt'' then
        bot_Send (TextMessage chatID reject_text) w
      else
        (let w = bot_Send (TextMessage chatID start_text) w;
             w = emit (GetFile (file_id upd)) w
         in
         (case get_file env of
            Inl err \<Rightarrow> sendErrorMessage chatID (log_Printf (log_getfile @ err) w)
          | Inr file_path \<Rightarrow>
              (let timeStamp = now_unix env;
                   inputPath = inputPath_of timeStamp (file_name upd);
                   outputPath = outputPath_of timeStamp (file_name upd)
               in
               (case downloadFile env (Link file_path (token env)) inputPath w of
                  (Some err, w) \<Rightarrow>
                    cleanupFiles [inputPath]
                      (sendErrorMessage chatID (log_Printf (log_save @ err) w))
                | (None, w) \<Rightarrow>
                    (case convertFile env inputPath outputPath w of
                       (Some err, w) \<Rightarrow>
                         cleanupFiles [inputPath, outputPath]
                           (sendErrorMessage chatID (log_Printf (log_convert @ err) w))
                     | (None, w) \<Rightarrow>
                         (case generateSlug (entropy env) of
                            (slug, Some err) \<Rightarrow>
                              cleanupFiles [inputPath, outputPath]
                                (sendErrorMessage chatID (log_Printf (log_slug @ err) w))
                          | (slug, None) \<Rightarrow>
                              (let w = emit (Inserted slug outputPath) w;
                                   downloadURL = ''http://'' @ server_host env @ ''/'' @ slug;
                                   w = bot_Send (TextMessage chatID (done_text @ downloadURL)) w
                               in
                               (case sendConvertedFile env chatID outputPath w of
                                  (Some err, w) \<Rightarrow>
                                    cleanupFiles [inputPath]
                                      (sendErrorMessage chatID
                                         (log_Printf (log_send @ err) w))
                                | (None, w) \<Rightarrow> cleanupFiles [inputPath] w)))))))))"

text \<open>The events of one run: what it appended to the trace.\<close>

definition run_events :: "env \<Rightarrow> update \<Rightarrow> world \<Rightarrow> event list" where
  "run_events env upd w = drop (length (trace w)) (trace (handleDocument env upd w))"

section \<open>The retrieval service\<close>

text \<open>
  Of a request that the server has read the model keeps the method, the path as the
  request line has it
  (\<^verbatim>\<open>r.URL.EscapedPath()\<close>, which the multiplexer inspects; before Go 1.22 the
  multiplexer inspected \<^verbatim>\<open>r.URL.Path\<close>), the decoded path \<^verbatim>\<open>r.URL.Path\<close>, which the
  handler reads, the query, and the headers under their canonical names. Of a
  response it keeps the status, the headers and the body; of the headers that
  \<^verbatim>\<open>net/http\<close> adds to a served file only the two below are kept.
\<close>

record request =
  http_method :: string
  escaped_path :: string
  url_path :: string
  raw_query :: string
  req_headers :: "string \<rightharpoonup> string"

record response =
  status :: nat
  headers :: "string \<rightharpoonup> string"
  body :: "byte list"

text \<open>
  Two answers of \<^verbatim>\<open>net/http\<close> are taken as given, not computed: what the multiplexer
  answers to a request that it does not pass on (400 to the request target \<^verbatim>\<open>*\<close>,
  and otherwise a redirect to the cleaned path, whose status is 301 or 307 by the
  release of Go), and the answer of \<^verbatim>\<open>serveContent\<close> to a request with a range or a
  conditional header (206, 304, 412 or 416), which depends on the modification time
  of the file.
\<close>

record library =
  mux_answer :: "request \<Rightarrow> response"
  serve_conditional :: "request \<Rightarrow> byte list \<Rightarrow> response"

definition bytes_of :: "string \<Rightarrow> byte list" where
  "bytes_of s = map (\<lambda>c. word_of_nat (of_char c)) s"

text \<open>\<^verbatim>\<open>http.Error\<close>: a plain-text body, the message and a newline.\<close>

definition http_Error :: "(string \<rightharpoonup> string) \<Rightarrow> string \<Rightarrow> nat \<Rightarrow> response" where
  "http_Error h msg code =
     \<lparr>status = code,
      headers = h(''Content-Type'' \<mapsto> ''text/plain; charset=utf-8'',
                  ''X-Content-Type-Options'' \<mapsto> ''nosniff''),
      body = bytes_of (msg @ [CHR 0x0A])\<rparr>"

text \<open>
  \<^verbatim>\<open>cleanPath\<close> of the multiplexer: the empty path is the root, a path gets a leading
  slash, it is cleaned as \<^verbatim>\<open>path.Clean\<close> does (on Unix that is \<^verbatim>\<open>filepath.Clean\<close>),
  and a trailing slash that the cleaning removed is put back.
\<close>

definition cleanPath :: "string \<Rightarrow> string" where
  "cleanPath p0 =
     (if p0 = '''' then ''/''
      else
        let p = (if hd p0 \<noteq> CHR ''/'' then CHR ''/'' # p0 else p0);
            np = Clean p
        in if last p = CHR ''/'' \<and> np \<noteq> ''/'' then
             (if length p = length np + 1 \<and> HasPrefix p np then p else np @ ''/'')
           else np)"

text \<open>
  \<^verbatim>\<open>containsDotDot\<close> of \<^verbatim>\<open>http.ServeFile\<close>: whether one of the fields between slashes
  and backslashes is a double dot.
\<close>

fun split_slashes :: "string \<Rightarrow> string list" where
  "split_slashes [] = [[]]"
| "split_slashes (c # cs) =
     (if c = CHR ''/'' \<or> c = CHR 0x5C then [] # split_slashes cs
      else (case split_slashes cs of [] \<Rightarrow> [[c]] | x # xs \<Rightarrow> (c # x) # xs))"

definition containsDotDot :: "string \<Rightarrow> bool" where
  "containsDotDot v = (''..'' \<in> set (split_slashes v))"

text \<open>The headers by which a request asks for a part of the file or for the file
  on a condition.\<close>

definition conditional :: "request \<Rightarrow> bool" where
  "conditional r =
     list_ex (\<lambda>k. req_headers r k \<noteq> None)
       [''If-Match'', ''If-Unmodified-Since'', ''If-None-Match'', ''If-Modified-Since'',
        ''If-Range'', ''Range'']"

text \<open>
  \<^verbatim>\<open>http.ServeFile\<close>: a request path with a double-dot field is refused, one that
  ends in \<^verbatim>\<open>/index.html\<close> is redirected, a file that cannot be opened is a 404. A
  request with a range or a conditional header gets the answer of
  \<^verbatim>\<open>serveContent\<close>, which leaves the \<^verbatim>\<open>Content-Disposition\<close> of the handler as it
  is. Otherwise the file is the body (of any method but \<^verbatim>\<open>HEAD\<close>), with the content
  type left as the handler set it.
\<close>

definition ServeFile ::
  "library \<Rightarrow> world \<Rightarrow> (string \<rightharpoonup> string) \<Rightarrow> request \<Rightarrow> string \<Rightarrow> response" where
  "ServeFile lib w h r name =
     (if containsDotDot (url_path r) then http_Error h ''invalid URL path'' 400
      else if HasSuffix (url_path r) ''/index.html'' then
        \<lparr>status = 301,
         headers = h(''Location'' \<mapsto>
                       ''./'' @ (if raw_query r \<noteq> '''' then ''?'' @ raw_query r else '''')),
         body = []\<rparr>
      else
        case disk w name of
          None \<Rightarrow> http_Error h ''404 page not found'' 404
        | Some b \<Rightarrow>
            if conditional r then
              (let a = serve_conditional lib r b
               in a\<lparr>headers := (headers a)(''Content-Disposition'' := h ''Content-Disposition'')\<rparr>)
            else
              \<lparr>status = 200,
               headers = h(''Accept-Ranges'' \<mapsto> ''bytes'',
                           ''Content-Length'' \<mapsto> show_nat (length b)),
               body = (if http_method r = ''HEAD'' then [] else b)\<rparr>)"

text \<open>The handler of lines 161 to 182.\<close>

definition handler :: "library \<Rightarrow> world \<Rightarrow> request \<Rightarrow> response" where
  "handler lib w r =
     (let slug = TrimPrefix (url_path r) ''/''
      in
      if slug = '''' then http_Error Map.empty ''Not Found'' 404
      else
        case lookup_file (files w) slug of
          (filePath, False) \<Rightarrow> http_Error Map.empty ''Not Found'' 404
        | (filePath, True) \<Rightarrow>
            let fileName = Base filePath;
                h = [''Content-Disposition'' \<mapsto> ''attachment; filename='' @ fileName,
                     ''Content-Type'' \<mapsto> ''application/x-mobipocket-ebook'']
            in ServeFile lib w h r filePath)"

text \<open>
  The handler is registered for the pattern \<^verbatim>\<open>/\<close> of the default multiplexer (line
  161), which \<^verbatim>\<open>http.ListenAndServe\<close> serves (line 185). The pattern matches every
  path and method. The multiplexer itself answers the request target \<^verbatim>\<open>*\<close> and,
  but for the method \<^verbatim>\<open>CONNECT\<close>, a request whose path is not clean; it passes every
  other request to the handler.
\<close>

definition serve :: "library \<Rightarrow> world \<Rightarrow> request \<Rightarrow> response" where
  "serve lib w r =
     (if escaped_path r = ''*'' \<or>
         (http_method r \<noteq> ''CONNECT'' \<and> cleanPath (escaped_path r) \<noteq> escaped_path r)
      then mux_answer lib r
      else handler lib w r)"

section \<open>Notions the properties are stated with\<close>

text \<open>The extension test of line 94: a document passes it when its extension, in
  lower case, is \<^verbatim>\<open>.fb2\<close> or \<^verbatim>\<open>.txt\<close>.\<close>

definition accepted :: "string \<Rightarrow> bool" where
  "accepted name = (ToLower (Ext name) = ''.fb2'' \<or> ToLower (Ext name) = ''.txt'')"

text \<open>The last path element of the time stamp, an underscore and the file name
  without its extension; for a file name without a separator this is all of it.\<close>

definition stem :: "int \<Rightarrow> string \<Rightarrow> string" where
  "stem timeStamp name =
     last (split_sep (show_int timeStamp @ ''_'' @ TrimSuffix name (Ext name)))"

text \<open>The messages among a list of events, in order.\<close>

fun sent_messages :: "event list \<Rightarrow> message list" where
  "sent_messages [] = []"
| "sent_messages (Sent m # es) = m # sent_messages es"
| "sent_messages (e # es) = sent_messages es"

text \<open>The shape of a generated slug: three characters of the URL-safe alphabet.\<close>

definition is_slug :: "string \<Rightarrow> bool" where
  "is_slug s = (length s = 3 \<and> list_all (\<lambda>c. c \<in> set encodeURL) s)"

text \<open>Several insertions into the registry, one after the other.\<close>

fun inserts :: "(string \<times> string) list \<Rightarrow> (string \<rightharpoonup> string) \<Rightarrow> (string \<rightharpoonup> string)" where
  "inserts [] m = m"
| "inserts ((slug, path) # rest) m = inserts rest (insert_file slug path m)"

text \<open>The argument vector of the conversion (lines 196 to 200).\<close>

definition convert_argv :: "string \<Rightarrow> string \<Rightarrow> string list" where
  "convert_argv inputPath outputPath =
     [''ebook-convert'', inputPath, outputPath,
      ''--output-profile'', ''kindle'', ''--mobi-file-type'', ''both'']"

text \<open>The events of the steps of a run. A process leaves its file, if it writes one,
  and returns; the download is preceded by the progress message and the call of
  \<^verbatim>\<open>bot.GetFile\<close>.\<close>

definition wrote_events :: "string \<Rightarrow> outcome \<Rightarrow> event list" where
  "wrote_events dest oc = (case written oc of None \<Rightarrow> [] | Some b \<Rightarrow> [Wrote dest b])"

definition download_events :: "env \<Rightarrow> update \<Rightarrow> string \<Rightarrow> event list" where
  "download_events env upd file_path =
     (let inputPath = inputPath_of (now_unix env) (file_name upd)
      in [Sent (TextMessage (chat_id upd) start_text), GetFile (file_id upd)] @
         wrote_events inputPath (wget env) @
         [Ran [''wget'', ''-O'', inputPath, Link file_path (token env)] (exit_err (wget env))])"

definition convert_events :: "env \<Rightarrow> update \<Rightarrow> event list" where
  "convert_events env upd =
     (let inputPath = inputPath_of (now_unix env) (file_name upd);
          outputPath = outputPath_of (now_unix env) (file_name upd)
      in wrote_events outputPath (ebook_convert env) @
         [Ran (convert_argv inputPath outputPath) (exit_err (ebook_convert env))])"

text \<open>The events of the upload (lines 151 to 155), given what \<^verbatim>\<open>os.ReadFile\<close> finds
  at the output path.\<close>

definition upload_events :: "env \<Rightarrow> update \<Rightarrow> byte list option \<Rightarrow> event list" where
  "upload_events env upd content =
     (let chatID = chat_id upd;
          outputPath = outputPath_of (now_unix env) (file_name upd);
          failure = Sent (TextMessage chatID failure_text)
      in case content of
           None \<Rightarrow>
             [Logged (log_send @ ''open '' @ outputPath @ '': no such file or directory''),
              failure]
         | Some b \<Rightarrow>
             Sent (DocumentMessage chatID (Base outputPath) b caption_text) #
             (case send_doc env of None \<Rightarrow> [] | Some err \<Rightarrow> [Logged (log_send @ err), failure]))"

text \<open>The events of \<^term>\<open>cleanupFiles\<close>: removals and log lines.\<close>

fun quiet :: "event \<Rightarrow> bool" where
  "quiet (Removed p) = True"
| "quiet (Logged l) = True"
| "quiet e = False"

text \<open>
  One outcome for the user and nothing else: the messages to the chat are the
  rejection alone, or the failure message alone, or a message that starts with the
  completion text followed by a document.
\<close>

fun one_outcome :: "int \<Rightarrow> message list \<Rightarrow> bool" where
  "one_outcome chatID [TextMessage c t] =
     (c = chatID \<and> (t = reject_text \<or> t = failure_text))"
| "one_outcome chatID [TextMessage c t, DocumentMessage c' name b cap] =
     (c = chatID \<and> c' = chatID \<and> take (length done_text) t = done_text)"
| "one_outcome chatID ms = False"

subsection \<open>Example runs\<close>

text \<open>
  The state of a fresh process with an empty upload directory, and the surroundings
  of four runs at the same second: one in which every step succeeds and the entropy
  source yields the bytes \<^verbatim>\<open>68 1D 40\<close>, whose encoding starts with \<^verbatim>\<open>aB1\<close>; one in which
  the conversion exits with status 1; one in which the conversion exits with status
  zero and has written nothing; and one in which the upload fails. Then a library,
  and the plain \<^verbatim>\<open>GET\<close> request for a path.
\<close>

definition world0 :: world where
  "world0 = \<lparr>files = Map.empty, disk = Map.empty, trace = []\<rparr>"

definition env_ok :: env where
  "env_ok =
     \<lparr>token = ''42:secret'', server_host = ''example.org:11477'',
      get_file = Inr ''documents/file_7.fb2'', now_unix = 1700000000,
      wget = \<lparr>exit_err = None, combined = '''', written = Some [0x3C, 0x46]\<rparr>,
      ebook_convert = \<lparr>exit_err = None, combined = ''Output saved'', written = Some [0x4D, 0x4F]\<rparr>,
      entropy = Inr (\<lambda>i. [0x68, 0x1D, 0x40] ! i), send_doc = None\<rparr>"

definition env_convert_fails :: env where
  "env_convert_fails =
     env_ok\<lparr>ebook_convert :=
       \<lparr>exit_err = Some ''exit status 1'', combined = ''bad input'', written = None\<rparr>\<rparr>"

definition env_no_output :: env where
  "env_no_output =
     env_ok\<lparr>ebook_convert := \<lparr>exit_err = None, combined = '''', written = None\<rparr>\<rparr>"

definition env_upload_fails :: env where
  "env_upload_fails = env_ok\<lparr>send_doc := Some ''Bad Gateway''\<rparr>"

definition upd_book :: update where
  "upd_book = \<lparr>chat_id = 77, file_name = ''book.fb2'', file_id = ''BQACAgIAAx''\<rparr>"

definition upd_pdf :: update where
  "upd_pdf = \<lparr>chat_id = 77, file_name = ''book.pdf'', file_id = ''BQACAgIAAy''\<rparr>"

definition upd_sep :: update where
  "upd_sep = \<lparr>chat_id = 77, file_name = ''/../b.fb2'', file_id = ''BQACAgIAAz''\<rparr>"

definition lib_example :: library where
  "lib_example =
     \<lparr>mux_answer =
        (\<lambda>r. \<lparr>status = 307, headers = [''Location'' \<mapsto> cleanPath (escaped_path r)],
              body = []\<rparr>),
      serve_conditional = (\<lambda>r b. \<lparr>status = 304, headers = Map.empty, body = []\<rparr>)\<rparr>"

definition get_request :: "string \<Rightarrow> request" where
  "get_request p =
     \<lparr>http_method = ''GET'', escaped_path = p, url_path = p, raw_query = '''',
      req_headers = Map.empty\<rparr>"

section \<open>Paths\<close>

text \<open>The extension is a suffix of the file name without a separator; the base name of a
  joined path is its last element, when that is a path element proper; so the input
  and the output path of a run differ, and the base name of the output path ends
  in \<^verbatim>\<open>.mobi\<close>.\<close>


lemma ext_scan_shape:
  "ext_scan r acc \<noteq> [] \<Longrightarrow>
   \<exists>r1 r2. r = r1 @ CHR ''.'' # r2 \<and> CHR ''/'' \<notin> set r1 \<and> ext_scan r acc = CHR ''.'' # rev r1 @ acc"
proof (induction r acc rule: ext_scan.induct)
  case (1 acc)
  then show ?case by simp
next
  case (2 c cs acc)
  show ?case
  proof (cases "c = CHR ''.''")
    case True
    then have "c # cs = [] @ CHR ''.'' # cs \<and> CHR ''/'' \<notin> set [] \<and> ext_scan (c # cs) acc = CHR ''.'' # rev [] @ acc"
      by simp
    then show ?thesis by blast
  next
    case False
    with "2.prems" have nsl: "c \<noteq> CHR ''/''" and ne: "ext_scan cs (c # acc) \<noteq> []"
      by (auto split: if_splits)
    from "2.IH" [OF nsl False ne] obtain r1 r2 where
      h: "cs = r1 @ CHR ''.'' # r2" "CHR ''/'' \<notin> set r1" "ext_scan cs (c # acc) = CHR ''.'' # rev r1 @ c # acc"
      by blast
    have "c # cs = (c # r1) @ CHR ''.'' # r2 \<and> CHR ''/'' \<notin> set (c # r1) \<and>
          ext_scan (c # cs) acc = CHR ''.'' # rev (c # r1) @ acc"
      using h nsl False by simp
    then show ?thesis by blast
  qed
qed

lemma Ext_shape:
  assumes "Ext p \<noteq> []"
  shows "\<exists>x t. p = x @ Ext p \<and> Ext p = CHR ''.'' # t \<and> CHR ''/'' \<notin> set t"
proof -
  from assms obtain r1 r2 where
    h: "rev p = r1 @ CHR ''.'' # r2" "CHR ''/'' \<notin> set r1" "Ext p = CHR ''.'' # rev r1"
    using ext_scan_shape [of "rev p" "[]"] by (auto simp: Ext_def)
  from h(1) have "p = rev r2 @ CHR ''.'' # rev r1"
    by (metis rev_append rev.simps(2) rev_rev_ident append.assoc append_Cons append_Nil)
  with h show ?thesis by auto
qed

lemma TrimSuffix_append: "TrimSuffix (x @ e) e = x"
  by (simp add: TrimSuffix_def HasSuffix_def)

lemma split_sep_nonempty: "split_sep s \<noteq> []"
  by (induction s) (auto split: list.splits)

lemma split_sep_no_sep: "e \<in> set (split_sep s) \<Longrightarrow> CHR ''/'' \<notin> set e"
  by (induction s arbitrary: e) (auto split: list.splits if_splits)

lemma split_sep_plain: "CHR ''/'' \<notin> set t \<Longrightarrow> split_sep t = [t]"
  by (induction t) auto

lemma split_sep_append_plain:
  "CHR ''/'' \<notin> set t \<Longrightarrow> split_sep (s @ t) = butlast (split_sep s) @ [last (split_sep s) @ t]"
proof (induction s)
  case Nil
  then show ?case by (simp add: split_sep_plain)
next
  case (Cons c s)
  then show ?case
    using split_sep_nonempty [of s] split_sep_nonempty [of "s @ t"]
    by (auto split: list.splits simp: butlast_append)
qed

lemma split_sep_append_sep: "split_sep (a @ CHR ''/'' # b) = split_sep a @ split_sep b"
  by (induction a) (auto split: list.splits simp: split_sep_nonempty)

lemma clean_elem_real:
  "e \<noteq> [] \<Longrightarrow> e \<noteq> ''.'' \<Longrightarrow> e \<noteq> ''..'' \<Longrightarrow> clean_elem r out e = e # out"
  by (simp add: clean_elem_def)

lemma join_sep_snoc:
  "join_sep (xs @ [e]) = (if xs = [] then e else join_sep xs @ CHR ''/'' # e)"
  by (induction xs rule: join_sep.induct) auto

lemma Base_plain:
  assumes "e \<noteq> []" "CHR ''/'' \<notin> set e"
  shows "Base e = e"
proof -
  from assms have d: "dropWhile (\<lambda>c. c = CHR ''/'') (rev e) = rev e"
    by (cases "rev e") auto
  from assms have t: "takeWhile (\<lambda>c. c \<noteq> CHR ''/'') (rev e) = rev e"
    by (auto simp: takeWhile_eq_all_conv)
  show ?thesis using assms by (simp add: Base_def d t)
qed

lemma Base_after_sep:
  assumes "e \<noteq> []" "CHR ''/'' \<notin> set e"
  shows "Base (pre @ CHR ''/'' # e) = e"
proof -
  from assms have d: "dropWhile (\<lambda>c. c = CHR ''/'') (rev e @ CHR ''/'' # rev pre) = rev e @ CHR ''/'' # rev pre"
    by (cases "rev e") auto
  have "\<forall>c\<in>set (rev e). c \<noteq> CHR ''/''"
    using assms(2) by auto
  then have t: "takeWhile (\<lambda>c. c \<noteq> CHR ''/'') (rev e @ CHR ''/'' # rev pre) = rev e"
    by (subst takeWhile_append2) auto
  show ?thesis using assms by (simp add: Base_def d t)
qed

lemma Clean_unrooted:
  assumes "p \<noteq> []" "hd p \<noteq> CHR ''/''"
    and "foldl (clean_elem False) [] (split_sep p) = e # st" "e \<noteq> []"
  shows "Clean p = (if st = [] then e else join_sep (rev st) @ CHR ''/'' # e)"
  using assms by (simp add: Clean_def Let_def join_sep_snoc)

lemma Clean_uploads_last:
  assumes e: "last (split_sep s) = e" and r: "e \<noteq> []" "e \<noteq> ''.''" "e \<noteq> ''..''"
  shows "Join uploadDir s = e \<or> (\<exists>pre. Join uploadDir s = pre @ CHR ''/'' # e)"
proof -
  define st where "st = foldl (clean_elem False) [''uploads''] (butlast (split_sep s))"
  have sp: "split_sep s = butlast (split_sep s) @ [e]"
    using e split_sep_nonempty [of s] by (metis append_butlast_last_id)
  have "split_sep (''./uploads'' @ CHR ''/'' # s) = [''.'', ''uploads''] @ split_sep s"
    by (simp only: split_sep_append_sep) simp
  then have "foldl (clean_elem False) [] (split_sep (''./uploads'' @ CHR ''/'' # s))
             = foldl (clean_elem False) [''uploads''] (butlast (split_sep s) @ [e])"
    using sp by (simp add: clean_elem_def)
  also have "\<dots> = e # st"
    using r by (simp add: st_def clean_elem_real)
  finally have f: "foldl (clean_elem False) [] (split_sep (''./uploads'' @ CHR ''/'' # s)) = e # st" .
  have "Clean (''./uploads'' @ CHR ''/'' # s) = (if st = [] then e else join_sep (rev st) @ CHR ''/'' # e)"
    by (rule Clean_unrooted [OF _ _ f r(1)]) simp_all
  then have "Join uploadDir s = (if st = [] then e else join_sep (rev st) @ CHR ''/'' # e)"
    by (simp add: Join_def uploadDir_def)
  then show ?thesis by (cases "st = []") auto
qed

lemma Base_Join_uploadDir:
  assumes e: "last (split_sep s) = e" and r: "e \<noteq> []" "e \<noteq> ''.''" "e \<noteq> ''..''"
  shows "Base (Join uploadDir s) = e"
proof -
  have "e \<in> set (split_sep s)"
    using e split_sep_nonempty [of s] last_in_set by blast
  then have ns: "CHR ''/'' \<notin> set e" by (rule split_sep_no_sep)
  from Clean_uploads_last [OF e r] show ?thesis
    using r(1) ns by (auto simp: Base_plain Base_after_sep)
qed

lemma Join_uploadDir_plain:
  assumes "CHR ''/'' \<notin> set s" "s \<noteq> []" "s \<noteq> ''.''" "s \<noteq> ''..''"
  shows "Join uploadDir s = ''uploads/'' @ s"
proof -
  have "split_sep (''./uploads'' @ CHR ''/'' # s) = [''.'', ''uploads'', s]"
    using assms(1) by (simp only: split_sep_append_sep) (simp add: split_sep_plain)
  then show ?thesis
    using assms by (simp add: Join_def uploadDir_def Clean_def Let_def clean_elem_def del: split_sep.simps)
qed

lemma show_nat_digits: "set (show_nat n) \<subseteq> set ''0123456789''"
proof (induction n rule: show_nat.induct)
  case (1 n)
  have d: "\<And>k. k < 10 \<Longrightarrow> ''0123456789'' ! k \<in> set ''0123456789''"
    by (rule nth_mem) simp
  show ?case
  proof (cases "n < 10")
    case True
    then show ?thesis using d [of n] by (subst show_nat.simps) simp
  next
    case False
    have "n mod 10 < 10" by simp
    with False "1.IH" d [of "n mod 10"] show ?thesis
      by (subst show_nat.simps) simp
  qed
qed

lemma show_int_no_sep: "CHR ''/'' \<notin> set (show_int i)"
  using show_nat_digits [of "nat i"] show_nat_digits [of "nat (- i)"]
  by (auto simp: show_int_def)

lemma TrimSuffix_Ext: "TrimSuffix name (Ext name) @ Ext name = name"
proof (cases "Ext name = []")
  case True
  then show ?thesis by (simp add: TrimSuffix_def HasSuffix_def)
next
  case False
  then obtain x where "name = x @ Ext name" using Ext_shape by blast
  then show ?thesis using TrimSuffix_append [of x "Ext name"] by simp
qed

lemma accepted_length: "accepted name \<Longrightarrow> length (Ext name) = 4"
proof -
  assume "accepted name"
  then have "length (ToLower (Ext name)) = 4" by (auto simp: accepted_def)
  then show ?thesis by (simp add: ToLower_def)
qed

lemma Ext_no_sep: "CHR ''/'' \<notin> set (Ext name)"
proof (cases "Ext name = []")
  case True
  then show ?thesis by simp
next
  case False
  then obtain t where "Ext name = CHR ''.'' # t" "CHR ''/'' \<notin> set t" using Ext_shape by blast
  then show ?thesis by simp
qed

lemma last_split_name:
  "last (split_sep (show_int ts @ ''_'' @ name)) = stem ts name @ Ext name"
proof -
  define A where "A = show_int ts @ ''_'' @ TrimSuffix name (Ext name)"
  have e: "show_int ts @ ''_'' @ name = A @ Ext name"
    using TrimSuffix_Ext [of name] by (simp add: A_def)
  have "split_sep (A @ Ext name) = butlast (split_sep A) @ [last (split_sep A) @ Ext name]"
    by (rule split_sep_append_plain [OF Ext_no_sep])
  then have "last (split_sep (A @ Ext name)) = last (split_sep A) @ Ext name"
    by (simp only: last_snoc)
  then show ?thesis
    unfolding e by (simp only: stem_def A_def)
qed

lemma last_split_mobi:
  "last (split_sep (show_int ts @ ''_'' @ TrimSuffix name (Ext name) @ ''.mobi'')) = stem ts name @ ''.mobi''"
proof -
  define A where "A = show_int ts @ ''_'' @ TrimSuffix name (Ext name)"
  have e: "show_int ts @ ''_'' @ TrimSuffix name (Ext name) @ ''.mobi'' = A @ ''.mobi''"
    by (simp add: A_def)
  have "CHR ''/'' \<notin> set ''.mobi''" by simp
  then have "split_sep (A @ ''.mobi'') = butlast (split_sep A) @ [last (split_sep A) @ ''.mobi'']"
    by (rule split_sep_append_plain)
  then have "last (split_sep (A @ ''.mobi'')) = last (split_sep A) @ ''.mobi''"
    by (simp only: last_snoc)
  then show ?thesis
    unfolding e by (simp only: stem_def A_def)
qed

lemma long_elem: "4 \<le> length e \<Longrightarrow> e \<noteq> [] \<and> e \<noteq> ''.'' \<and> e \<noteq> ''..''"
  by auto

lemma Base_inputPath:
  assumes "accepted name"
  shows "Base (inputPath_of ts name) = stem ts name @ Ext name"
proof -
  have "4 \<le> length (stem ts name @ Ext name)"
    using accepted_length [OF assms] by simp
  then have r: "stem ts name @ Ext name \<noteq> []" "stem ts name @ Ext name \<noteq> ''.''"
      "stem ts name @ Ext name \<noteq> ''..''"
    using long_elem by blast+
  show ?thesis
    unfolding inputPath_of_def by (rule Base_Join_uploadDir [OF last_split_name r])
qed

lemma Base_outputPath: "Base (outputPath_of ts name) = stem ts name @ ''.mobi''"
proof -
  have "4 \<le> length (stem ts name @ ''.mobi'')" by simp
  then have r: "stem ts name @ ''.mobi'' \<noteq> []" "stem ts name @ ''.mobi'' \<noteq> ''.''"
      "stem ts name @ ''.mobi'' \<noteq> ''..''"
    using long_elem by blast+
  show ?thesis
    unfolding outputPath_of_def by (rule Base_Join_uploadDir [OF last_split_mobi r])
qed

lemma paths_differ:
  assumes "accepted name"
  shows "inputPath_of ts name \<noteq> outputPath_of ts name"
proof
  assume "inputPath_of ts name = outputPath_of ts name"
  then have "Base (inputPath_of ts name) = Base (outputPath_of ts name)" by simp
  then have "length (stem ts name @ Ext name) = length (stem ts name @ ''.mobi'')"
    by (simp only: Base_inputPath [OF assms] Base_outputPath)
  then show False using accepted_length [OF assms] by simp
qed

lemma TrimSuffix_subset: "set (TrimSuffix s suf) \<subseteq> set s"
  by (auto simp: TrimSuffix_def dest: in_set_takeD)

lemma stem_plain:
  assumes "CHR ''/'' \<notin> set name"
  shows "stem ts name = show_int ts @ ''_'' @ TrimSuffix name (Ext name)"
proof -
  have "CHR ''/'' \<notin> set (show_int ts @ ''_'' @ TrimSuffix name (Ext name))"
    using assms show_int_no_sep [of ts] TrimSuffix_subset [of name "Ext name"] by auto
  then show ?thesis by (simp add: stem_def split_sep_plain)
qed

lemma Base_outputPath_not_name:
  assumes "accepted name"
  shows "Base (outputPath_of ts name) \<noteq> name"
proof
  assume "Base (outputPath_of ts name) = name"
  then have eq: "stem ts name @ ''.mobi'' = TrimSuffix name (Ext name) @ Ext name"
    by (simp add: Base_outputPath TrimSuffix_Ext)
  from assms have "Ext name \<noteq> []" using accepted_length by fastforce
  then obtain t where t: "Ext name = CHR ''.'' # t" using Ext_shape by blast
  with accepted_length [OF assms] have lt: "length t = 3" by simp
  from eq have "rev (stem ts name @ ''.mobi'') ! 3 = rev (TrimSuffix name (Ext name) @ Ext name) ! 3"
    by simp
  then show False using t lt by (simp add: nth_append)
qed

section \<open>Events and replay\<close>

text \<open>The trace records what \<^term>\<open>emit\<close> performs; \<^term>\<open>cleanupFiles\<close> is a replay of
  removals and log lines, after which none of its paths is on disk.\<close>


lemma trace_emit: "trace (emit e w) = trace w @ [e]"
  by (simp add: emit_def)

lemma replay_Nil: "replay [] w = w"
  by (simp add: replay_def)

lemma replay_Cons: "replay (e # es) w = replay es (emit e w)"
  by (simp add: replay_def)

lemma replay_append: "replay (xs @ ys) w = replay ys (replay xs w)"
  by (simp add: replay_def)

lemma trace_replay: "trace (replay es w) = trace w @ es"
  by (induction es arbitrary: w) (simp_all add: replay_Nil replay_Cons trace_emit)

lemma files_quiet: "quiet e \<Longrightarrow> files (emit e w) = files w"
  by (cases e) (simp_all add: emit_def)

lemma files_replay_quiet: "list_all quiet es \<Longrightarrow> files (replay es w) = files w"
  by (induction es arbitrary: w) (simp_all add: replay_Nil replay_Cons files_quiet)

lemma sent_messages_append: "sent_messages (xs @ ys) = sent_messages xs @ sent_messages ys"
  by (induction xs rule: sent_messages.induct) simp_all

lemma sent_messages_quiet: "list_all quiet es \<Longrightarrow> sent_messages es = []"
  by (induction es rule: sent_messages.induct) simp_all

lemma quiet_no_insert: "list_all quiet es \<Longrightarrow> Inserted s p \<notin> set es"
  by (induction es) auto

lemma cleanupFiles_replay: "\<exists>es. cleanupFiles ps w = replay es w \<and> list_all quiet es"
proof (induction ps arbitrary: w)
  case Nil
  have "cleanupFiles [] w = replay [] w \<and> list_all quiet []"
    by (simp add: replay_Nil)
  then show ?case by blast
next
  case (Cons path rest)
  show ?case
  proof (cases "disk w path = None")
    case True
    define l where "l = Logged (log_remove @ path @ '': '' @ ''remove '' @ path @ '': no such file or directory'')"
    from Cons [of "emit l w"] obtain es where
      es: "cleanupFiles rest (emit l w) = replay es (emit l w)" "list_all quiet es" by blast
    have "cleanupFiles (path # rest) w = replay (l # es) w \<and> list_all quiet (l # es)"
      using True es by (simp add: os_Remove_def log_Printf_def l_def replay_Cons)
    then show ?thesis by blast
  next
    case False
    from Cons [of "emit (Removed path) w"] obtain es where
      es: "cleanupFiles rest (emit (Removed path) w) = replay es (emit (Removed path) w)"
        "list_all quiet es" by blast
    have "cleanupFiles (path # rest) w = replay (Removed path # es) w
          \<and> list_all quiet (Removed path # es)"
      using False es by (simp add: os_Remove_def replay_Cons del: not_None_eq)
    then show ?thesis by blast
  qed
qed

lemma cleanupFiles_files: "files (cleanupFiles ps w) = files w"
  using cleanupFiles_replay [of ps w] files_replay_quiet by fastforce

lemma cleanupFiles_disk: "disk (cleanupFiles ps w) p = (if p \<in> set ps then None else disk w p)"
proof (induction ps arbitrary: w p)
  case Nil
  then show ?case by simp
next
  case (Cons path rest)
  show ?case
    by (cases "disk w path = None")
      (auto simp: Cons os_Remove_def log_Printf_def emit_def)
qed

lemma insert_split:
  assumes "es1 @ Inserted s p # es2 = P @ Inserted s' p' # Q"
    and "\<forall>s p. Inserted s p \<notin> set P" "\<forall>s p. Inserted s p \<notin> set Q"
  shows "es1 = P \<and> s = s' \<and> p = p' \<and> es2 = Q"
  using assms
proof (induction P arbitrary: es1)
  case Nil
  show ?case
  proof (cases es1)
    case Nil
    with Nil.prems show ?thesis by simp
  next
    case (Cons a es1')
    with Nil.prems(1) have "Inserted s p \<in> set Q" by auto
    with Nil.prems(3) show ?thesis by blast
  qed
next
  case (Cons x P)
  show ?case
  proof (cases es1)
    case Nil
    with Cons.prems(1) have "x = Inserted s p" by simp
    with Cons.prems(2) show ?thesis by auto
  next
    case (Cons a es1')
    with Cons.prems have "es1' @ Inserted s p # es2 = P @ Inserted s' p' # Q"
      and "a = x" and "\<forall>s p. Inserted s p \<notin> set P" by auto
    with Cons.IH [of es1'] Cons.prems(3) Cons show ?thesis by simp
  qed
qed

section \<open>The branches of a run\<close>

text \<open>Each way through \<^term>\<open>handleDocument\<close>, as a replay of the events of its steps
  followed by the cleanup.\<close>


lemma generateSlug_Inr:
  "generateSlug (Inr f) = (take 3 (EncodeToString [f 0, f 1, f 2]), None)"
proof -
  have "[0..<3] = [0, 1, 2::nat]"
    by (simp add: upt_rec)
  then have "map f [0..<length (replicate 3 (0::byte))] = [f 0, f 1, f 2]"
    by simp
  then show ?thesis
    by (simp add: generateSlug_def rand_Read_def del: EncodeToString.simps)
qed

lemma generateSlug_Inl: "generateSlug (Inl err) = ('''', Some err)"
  by (simp add: generateSlug_def rand_Read_def)

lemma accepted_test:
  "accepted name \<Longrightarrow>
   (ToLower (Ext name) \<noteq> ''.fb2'' \<and> ToLower (Ext name) \<noteq> ''.txt'') = False"
  by (simp add: accepted_def)

lemma rejected_test:
  "\<not> accepted name \<Longrightarrow>
   (ToLower (Ext name) \<noteq> ''.fb2'' \<and> ToLower (Ext name) \<noteq> ''.txt'') = True"
  by (simp add: accepted_def)

lemmas run_defs = handleDocument_def Let_def bot_Send_def log_Printf_def
  sendErrorMessage_def downloadFile_def convertFile_def run_cmd_def download_events_def
  convert_events_def wrote_events_def convert_argv_def replay_Nil replay_Cons replay_append

lemma run_rejected:
  assumes "\<not> accepted (file_name upd)"
  shows "handleDocument env upd w = replay [Sent (TextMessage (chat_id upd) reject_text)] w"
  by (simp add: run_defs rejected_test [OF assms])

lemma run_getfile_fails:
  assumes "accepted (file_name upd)" "get_file env = Inl err"
  shows "handleDocument env upd w =
    replay [Sent (TextMessage (chat_id upd) start_text), GetFile (file_id upd),
            Logged (log_getfile @ err), Sent (TextMessage (chat_id upd) failure_text)] w"
  using assms(2) by (simp add: run_defs accepted_test [OF assms(1)])

lemma run_download_fails:
  assumes "accepted (file_name upd)" "get_file env = Inr fp" "exit_err (wget env) = Some err"
  shows "handleDocument env upd w =
    cleanupFiles [inputPath_of (now_unix env) (file_name upd)]
      (replay (download_events env upd fp @
               [Logged (log_save @ err), Sent (TextMessage (chat_id upd) failure_text)]) w)"
  using assms(2-) by (simp add: run_defs accepted_test [OF assms(1)] split: option.splits del: cleanupFiles.simps)

lemma run_convert_fails:
  assumes "accepted (file_name upd)" "get_file env = Inr fp" "exit_err (wget env) = None"
    "exit_err (ebook_convert env) = Some err"
  shows "handleDocument env upd w =
    cleanupFiles [inputPath_of (now_unix env) (file_name upd),
                  outputPath_of (now_unix env) (file_name upd)]
      (replay (download_events env upd fp @ convert_events env upd @
               [Logged (log_convert @ convert_err @ err @ '', output: '' @
                        combined (ebook_convert env)),
                Sent (TextMessage (chat_id upd) failure_text)]) w)"
  using assms(2-) by (simp add: run_defs accepted_test [OF assms(1)] split: option.splits del: cleanupFiles.simps)

lemma run_slug_fails:
  assumes "accepted (file_name upd)" "get_file env = Inr fp" "exit_err (wget env) = None"
    "exit_err (ebook_convert env) = None" "entropy env = Inl err"
  shows "handleDocument env upd w =
    cleanupFiles [inputPath_of (now_unix env) (file_name upd),
                  outputPath_of (now_unix env) (file_name upd)]
      (replay (download_events env upd fp @ convert_events env upd @
               [Logged (log_slug @ err), Sent (TextMessage (chat_id upd) failure_text)]) w)"
  using assms(2-) by (simp add: run_defs accepted_test [OF assms(1)] generateSlug_Inl split: option.splits del: cleanupFiles.simps)

lemma run_registered:
  assumes "accepted (file_name upd)" "get_file env = Inr fp" "exit_err (wget env) = None"
    "exit_err (ebook_convert env) = None" "entropy env = Inr f"
  shows "handleDocument env upd w =
    cleanupFiles [inputPath_of (now_unix env) (file_name upd)]
      (replay (download_events env upd fp @ convert_events env upd @
               [Inserted (fst (generateSlug (entropy env)))
                  (outputPath_of (now_unix env) (file_name upd)),
                Sent (TextMessage (chat_id upd)
                  (done_text @ ''http://'' @ server_host env @ ''/'' @
                   fst (generateSlug (entropy env))))] @
               upload_events env upd
                 (disk (replay (download_events env upd fp @ convert_events env upd) w)
                    (outputPath_of (now_unix env) (file_name upd)))) w)"
  using assms(2-)
  by (simp add: run_defs accepted_test [OF assms(1)] generateSlug_Inr sendConvertedFile_def os_ReadFile_def upload_events_def
      emit_def split: option.splits del: cleanupFiles.simps)

section \<open>What the steps of a run do\<close>

text \<open>Disk, registry and messages after the events of the download, of the conversion
  and of the upload; and the case distinction over the branches of a run.\<close>


lemma run_events_replay:
  assumes "handleDocument env upd w = replay es w"
  shows "run_events env upd w = es"
  by (simp add: run_events_def assms trace_replay)

lemma run_events_cleanup:
  assumes "handleDocument env upd w = cleanupFiles ps (replay es w)"
  shows "\<exists>q. run_events env upd w = es @ q \<and> list_all quiet q \<and>
             handleDocument env upd w = replay (es @ q) w"
proof -
  from cleanupFiles_replay [of ps "replay es w"] obtain q where
    q: "cleanupFiles ps (replay es w) = replay q (replay es w)" "list_all quiet q" by blast
  then have "handleDocument env upd w = replay (es @ q) w"
    by (simp add: assms replay_append)
  then show ?thesis
    using q(2) run_events_replay by blast
qed

lemma state_download:
  "disk (replay (download_events env upd fp) w) =
     (case written (wget env) of
        None \<Rightarrow> disk w
      | Some b \<Rightarrow> (disk w)(inputPath_of (now_unix env) (file_name upd) \<mapsto> b))"
  "files (replay (download_events env upd fp) w) = files w"
  by (simp_all add: download_events_def wrote_events_def Let_def replay_Cons replay_Nil emit_def
      split: option.splits)

lemma state_convert:
  "disk (replay (convert_events env upd) w) =
     (case written (ebook_convert env) of
        None \<Rightarrow> disk w
      | Some b \<Rightarrow> (disk w)(outputPath_of (now_unix env) (file_name upd) \<mapsto> b))"
  "files (replay (convert_events env upd) w) = files w"
  by (simp_all add: convert_events_def wrote_events_def Let_def replay_Cons replay_Nil emit_def
      split: option.splits)

lemma state_upload:
  "disk (replay (upload_events env upd c) w) = disk w"
  "files (replay (upload_events env upd c) w) = files w"
  by (simp_all add: upload_events_def Let_def replay_Cons replay_Nil emit_def
      split: option.splits)

lemma sent_download:
  "sent_messages (download_events env upd fp) = [TextMessage (chat_id upd) start_text]"
  by (simp add: download_events_def wrote_events_def Let_def split: option.splits)

lemma sent_convert: "sent_messages (convert_events env upd) = []"
  by (simp add: convert_events_def wrote_events_def Let_def split: option.splits)

lemma no_insert_download: "Inserted s p \<notin> set (download_events env upd fp)"
  by (simp add: download_events_def wrote_events_def Let_def split: option.splits)

lemma no_insert_convert: "Inserted s p \<notin> set (convert_events env upd)"
  by (simp add: convert_events_def wrote_events_def Let_def split: option.splits)

lemma no_insert_upload: "Inserted s p \<notin> set (upload_events env upd c)"
  by (simp add: upload_events_def Let_def split: option.splits)

lemma texts_differ: "reject_text \<noteq> failure_text" "start_text \<noteq> failure_text"
  "start_text \<noteq> reject_text"
  by (simp_all add: reject_text_def failure_text_def start_text_def)

lemma run_branches [case_names rejected getfile download convert slug registered]:
  fixes env upd w
  defines "chat \<equiv> chat_id upd"
    and "inp \<equiv> inputPath_of (now_unix env) (file_name upd)"
    and "out \<equiv> outputPath_of (now_unix env) (file_name upd)"
  obtains
    "\<not> accepted (file_name upd)"
    "handleDocument env upd w = replay [Sent (TextMessage chat reject_text)] w"
  | err where "accepted (file_name upd)" "get_file env = Inl err"
    "handleDocument env upd w =
       replay [Sent (TextMessage chat start_text), GetFile (file_id upd),
               Logged (log_getfile @ err), Sent (TextMessage chat failure_text)] w"
  | fp err where "accepted (file_name upd)" "get_file env = Inr fp"
    "exit_err (wget env) = Some err"
    "handleDocument env upd w =
       cleanupFiles [inp]
         (replay (download_events env upd fp @
                  [Logged (log_save @ err), Sent (TextMessage chat failure_text)]) w)"
  | fp err where "accepted (file_name upd)" "get_file env = Inr fp"
    "exit_err (wget env) = None" "exit_err (ebook_convert env) = Some err"
    "handleDocument env upd w =
       cleanupFiles [inp, out]
         (replay (download_events env upd fp @ convert_events env upd @
                  [Logged (log_convert @ convert_err @ err @ '', output: '' @
                           combined (ebook_convert env)),
                   Sent (TextMessage chat failure_text)]) w)"
  | fp err where "accepted (file_name upd)" "get_file env = Inr fp"
    "exit_err (wget env) = None" "exit_err (ebook_convert env) = None" "entropy env = Inl err"
    "handleDocument env upd w =
       cleanupFiles [inp, out]
         (replay (download_events env upd fp @ convert_events env upd @
                  [Logged (log_slug @ err), Sent (TextMessage chat failure_text)]) w)"
  | fp f where "accepted (file_name upd)" "get_file env = Inr fp"
    "exit_err (wget env) = None" "exit_err (ebook_convert env) = None" "entropy env = Inr f"
    "handleDocument env upd w =
       cleanupFiles [inp]
         (replay (download_events env upd fp @ convert_events env upd @
                  [Inserted (fst (generateSlug (entropy env))) out,
                   Sent (TextMessage chat
                     (done_text @ ''http://'' @ server_host env @ ''/'' @
                      fst (generateSlug (entropy env))))] @
                  upload_events env upd
                    (disk (replay (download_events env upd fp @ convert_events env upd) w) out)) w)"
proof (cases "accepted (file_name upd)")
  case False
  then show ?thesis using that(1) run_rejected chat_def by blast
next
  case acc: True
  show ?thesis
  proof (cases "get_file env")
    case (Inl err)
    then show ?thesis using that(2) acc run_getfile_fails chat_def by blast
  next
    case (Inr fp)
    show ?thesis
    proof (cases "exit_err (wget env)")
      case (Some err)
      then show ?thesis
        using that(3) acc Inr run_download_fails unfolding chat_def inp_def by blast
    next
      case dl: None
      show ?thesis
      proof (cases "exit_err (ebook_convert env)")
        case (Some err)
        then show ?thesis
          using that(4) acc Inr dl run_convert_fails unfolding chat_def inp_def out_def by blast
      next
        case cv: None
        show ?thesis
        proof (cases "entropy env")
          case (Inl err)
          then show ?thesis
            using that(5) acc Inr dl cv run_slug_fails unfolding chat_def inp_def out_def by blast
        next
          case (Inr f)
          from run_registered [OF acc \<open>get_file env = Inr fp\<close> dl cv Inr, of w]
          show ?thesis
            using that(6) [OF acc \<open>get_file env = Inr fp\<close> dl cv Inr]
            unfolding chat_def inp_def out_def by blast
        qed
      qed
    qed
  qed
qed

lemma run_is_replay: "handleDocument env upd w = replay (run_events env upd w) w"
proof (cases rule: run_branches [of upd env w])
  case rejected
  then show ?thesis using run_events_replay by metis
next
  case (getfile err)
  then show ?thesis using run_events_replay by metis
next
  case (download fp err)
  from run_events_cleanup [OF download(4)] show ?thesis by metis
next
  case (convert fp err)
  from run_events_cleanup [OF convert(5)] show ?thesis by metis
next
  case (slug fp err)
  from run_events_cleanup [OF slug(6)] show ?thesis by metis
next
  case (registered fp f)
  from run_events_cleanup [OF registered(6)] show ?thesis by metis
qed

lemma no_insert_unless_registered:
  assumes "Inserted s p \<in> set (run_events env upd w)"
  shows "accepted (file_name upd) \<and> \<not> isl (get_file env) \<and> exit_err (wget env) = None
    \<and> exit_err (ebook_convert env) = None \<and> \<not> isl (entropy env)"
proof (cases rule: run_branches [of upd env w])
  case rejected
  from run_events_replay [OF rejected(2)] assms show ?thesis by simp
next
  case (getfile err)
  from run_events_replay [OF getfile(3)] assms show ?thesis by simp
next
  case (download fp err)
  from run_events_cleanup [OF download(4)] obtain q where
    "run_events env upd w = (download_events env upd fp @
       [Logged (log_save @ err), Sent (TextMessage (chat_id upd) failure_text)]) @ q"
    "list_all quiet q" by blast
  with assms quiet_no_insert [of q s p] no_insert_download [of s p env upd fp]
  show ?thesis by simp
next
  case (convert fp err)
  from run_events_cleanup [OF convert(5)] obtain q where
    "run_events env upd w = (download_events env upd fp @ convert_events env upd @
       [Logged (log_convert @ convert_err @ err @ '', output: '' @ combined (ebook_convert env)),
        Sent (TextMessage (chat_id upd) failure_text)]) @ q"
    "list_all quiet q" by blast
  with assms quiet_no_insert [of q s p] no_insert_download [of s p env upd fp]
    no_insert_convert [of s p env upd]
  show ?thesis by simp
next
  case (slug fp err)
  from run_events_cleanup [OF slug(6)] obtain q where
    "run_events env upd w = (download_events env upd fp @ convert_events env upd @
       [Logged (log_slug @ err), Sent (TextMessage (chat_id upd) failure_text)]) @ q"
    "list_all quiet q" by blast
  with assms quiet_no_insert [of q s p] no_insert_download [of s p env upd fp]
    no_insert_convert [of s p env upd]
  show ?thesis by simp
next
  case (registered fp f)
  then show ?thesis by simp
qed

lemma registered_split:
  assumes "accepted (file_name upd)" "get_file env = Inr fp" "exit_err (wget env) = None"
    and "exit_err (ebook_convert env) = None" "entropy env = Inr f"
  shows "\<exists>q. run_events env upd w =
           (download_events env upd fp @ convert_events env upd) @
           Inserted (fst (generateSlug (entropy env)))
             (outputPath_of (now_unix env) (file_name upd)) # q
         \<and> (\<forall>s p. Inserted s p \<notin> set q)"
proof -
  from run_events_cleanup [OF run_registered [OF assms, of w]] obtain q where
    q: "run_events env upd w =
         (download_events env upd fp @ convert_events env upd @
           [Inserted (fst (generateSlug (entropy env)))
              (outputPath_of (now_unix env) (file_name upd)),
            Sent (TextMessage (chat_id upd)
              (done_text @ ''http://'' @ server_host env @ ''/'' @
               fst (generateSlug (entropy env))))] @
           upload_events env upd
             (disk (replay (download_events env upd fp @ convert_events env upd) w)
                (outputPath_of (now_unix env) (file_name upd)))) @ q"
      "list_all quiet q" by blast
  define tl where "tl =
     Sent (TextMessage (chat_id upd)
       (done_text @ ''http://'' @ server_host env @ ''/'' @ fst (generateSlug (entropy env)))) #
     upload_events env upd
       (disk (replay (download_events env upd fp @ convert_events env upd) w)
          (outputPath_of (now_unix env) (file_name upd))) @ q"
  have "run_events env upd w =
      (download_events env upd fp @ convert_events env upd) @
      Inserted (fst (generateSlug (entropy env)))
        (outputPath_of (now_unix env) (file_name upd)) # tl"
    by (simp add: q(1) tl_def)
  moreover have "\<forall>s p. Inserted s p \<notin> set tl"
    using quiet_no_insert [OF q(2)] by (simp add: tl_def no_insert_upload)
  ultimately show ?thesis by blast
qed

lemma input_removed:
  assumes "accepted (file_name upd)" "get_file env = Inr fp"
  shows "disk (handleDocument env upd w) (inputPath_of (now_unix env) (file_name upd)) = None"
proof (cases rule: run_branches [of upd env w])
  case rejected
  with assms show ?thesis by simp
next
  case (getfile err)
  with assms show ?thesis by simp
next
  case (download fp err)
  then show ?thesis by (simp add: cleanupFiles_disk del: cleanupFiles.simps)
next
  case (convert fp err)
  then show ?thesis by (simp add: cleanupFiles_disk del: cleanupFiles.simps)
next
  case (slug fp err)
  then show ?thesis by (simp add: cleanupFiles_disk del: cleanupFiles.simps)
next
  case (registered fp f)
  then show ?thesis by (simp add: cleanupFiles_disk del: cleanupFiles.simps)
qed

section \<open>Slugs and the registry\<close>

text \<open>Every character of an encoding is in the alphabet, so three encoded bytes give a
  slug.\<close>


lemma enc_in_alphabet: "enc v \<in> set encodeURL"
proof -
  have "unat (v AND 0x3F) \<le> unat (0x3F :: 64 word)"
    by (rule word_and_le1 [THEN word_le_nat_alt [THEN iffD1]])
  then have "unat (v AND 0x3F) < length encodeURL"
    by (simp add: encodeURL_def)
  then show ?thesis
    unfolding enc_def by (rule nth_mem)
qed

lemma is_slug_three: "is_slug (take 3 (EncodeToString [a, b, c]))"
  by (simp add: is_slug_def Let_def enc_in_alphabet)

lemma slug_example: "generateSlug (Inr (\<lambda>i. [0x68, 0x1D, 0x40] ! i)) = (''aB1'', None)"
  by (simp add: generateSlug_Inr enc_def encodeURL_def)

lemma inserts_other: "s \<notin> fst ` set later \<Longrightarrow> inserts later m s = m s"
  by (induction later arbitrary: m) (auto simp: insert_file_def)

section \<open>The example runs\<close>

text \<open>The example surroundings and documents, evaluated.\<close>


lemma accepted_book: "accepted ''book.fb2''"
  by (simp add: accepted_def Ext_def ToLower_def to_lower_char_def)

lemma not_accepted_pdf: "\<not> accepted (file_name upd_pdf)"
  by (simp add: accepted_def upd_pdf_def Ext_def ToLower_def to_lower_char_def)

lemma upd_book_sel: "file_name upd_book = ''book.fb2''" "chat_id upd_book = 77"
  "file_id upd_book = ''BQACAgIAAx''"
  by (simp_all add: upd_book_def)

lemma env_ok_sel: "now_unix env_ok = 1700000000" "get_file env_ok = Inr ''documents/file_7.fb2''"
  "exit_err (wget env_ok) = None" "exit_err (ebook_convert env_ok) = None"
  "written (ebook_convert env_ok) = Some [0x4D, 0x4F]" "written (wget env_ok) = Some [0x3C, 0x46]"
  "entropy env_ok = Inr (\<lambda>i. [0x68, 0x1D, 0x40] ! i)" "send_doc env_ok = None"
  "token env_ok = ''42:secret''" "server_host env_ok = ''example.org:11477''"
  by (simp_all add: env_ok_def)

lemma show_int_example: "show_int 1700000000 = ''1700000000''"
  by (simp add: show_int_def show_nat.simps)

lemma inputPath_book:
  "inputPath_of 1700000000 ''book.fb2'' = ''uploads/1700000000_book.fb2''"
  by (simp add: inputPath_of_def show_int_example Join_uploadDir_plain)

lemma outputPath_book:
  "outputPath_of 1700000000 ''book.fb2'' = ''uploads/1700000000_book.mobi''"
  by (simp add: outputPath_of_def show_int_example Join_uploadDir_plain
      Ext_def TrimSuffix_def HasSuffix_def)

lemma env_convert_fails_sel: "now_unix env_convert_fails = 1700000000"
  "get_file env_convert_fails = Inr ''documents/file_7.fb2''"
  "exit_err (wget env_convert_fails) = None"
  "exit_err (ebook_convert env_convert_fails) = Some ''exit status 1''"
  "combined (ebook_convert env_convert_fails) = ''bad input''"
  "written (ebook_convert env_convert_fails) = None"
  "written (wget env_convert_fails) = Some [0x3C, 0x46]"
  "token env_convert_fails = ''42:secret''"
  by (simp_all add: env_convert_fails_def env_ok_def)

lemma Base_book: "Base ''uploads/1700000000_book.mobi'' = ''1700000000_book.mobi''"
  by (simp add: Base_def)

lemmas example_simps = upd_book_sel env_ok_sel inputPath_book outputPath_book slug_example
  Base_book download_events_def convert_events_def upload_events_def wrote_events_def
  convert_argv_def Link_def Let_def replay_append replay_Cons replay_Nil emit_def os_Remove_def
  log_Printf_def world0_def

lemma run_events_book:
  "run_events env_ok upd_book world0 =
     [Sent (TextMessage 77 start_text), GetFile ''BQACAgIAAx'',
      Wrote ''uploads/1700000000_book.fb2'' [0x3C, 0x46],
      Ran [''wget'', ''-O'', ''uploads/1700000000_book.fb2'',
           ''https://api.telegram.org/file/bot42:secret/documents/file_7.fb2''] None,
      Wrote ''uploads/1700000000_book.mobi'' [0x4D, 0x4F],
      Ran [''ebook-convert'', ''uploads/1700000000_book.fb2'', ''uploads/1700000000_book.mobi'',
           ''--output-profile'', ''kindle'', ''--mobi-file-type'', ''both''] None] @
     Inserted ''aB1'' ''uploads/1700000000_book.mobi'' #
     [Sent (TextMessage 77 (done_text @ ''http://example.org:11477/aB1'')),
      Sent (DocumentMessage 77 ''1700000000_book.mobi'' [0x4D, 0x4F] caption_text),
      Removed ''uploads/1700000000_book.fb2'']"
proof -
  have a: "accepted (file_name upd_book)"
    using accepted_book by (simp add: upd_book_sel)
  show ?thesis
    unfolding run_events_def run_registered [OF a env_ok_sel(2-4,7)]
    by (simp add: example_simps)
qed

section \<open>The messages of a run\<close>

text \<open>The messages of the upload, which depend on what is at the output path when it is
  read.\<close>


lemma sent_upload:
  "sent_messages (upload_events env upd c) =
     (case c of
        None \<Rightarrow> [TextMessage (chat_id upd) failure_text]
      | Some b \<Rightarrow>
          DocumentMessage (chat_id upd)
            (Base (outputPath_of (now_unix env) (file_name upd))) b caption_text #
          (case send_doc env of None \<Rightarrow> [] | Some err \<Rightarrow> [TextMessage (chat_id upd) failure_text]))"
  by (simp add: upload_events_def Let_def split: option.splits)

lemma content_at_upload:
  assumes "accepted (file_name upd)"
  shows "disk (replay (download_events env upd fp @ convert_events env upd) w)
           (outputPath_of (now_unix env) (file_name upd))
         = (case written (ebook_convert env) of
              None \<Rightarrow> disk w (outputPath_of (now_unix env) (file_name upd))
            | Some b \<Rightarrow> Some b)"
  using paths_differ [OF assms, of "now_unix env"]
  by (simp add: replay_append state_convert state_download split: option.splits)

lemma env_upload_fails_sel: "now_unix env_upload_fails = 1700000000"
  "get_file env_upload_fails = Inr ''documents/file_7.fb2''"
  "exit_err (wget env_upload_fails) = None"
  "exit_err (ebook_convert env_upload_fails) = None"
  "written (ebook_convert env_upload_fails) = Some [0x4D, 0x4F]"
  "entropy env_upload_fails = Inr (\<lambda>i. [0x68, 0x1D, 0x40] ! i)"
  "send_doc env_upload_fails = Some ''Bad Gateway''"
  "server_host env_upload_fails = ''example.org:11477''"
  by (simp_all add: env_upload_fails_def env_ok_def)

section \<open>The state after a run\<close>

text \<open>A run that registers its output: the registry gets the one new entry, and the
  output path is left as the conversion left it.\<close>

lemma registered_files:
  assumes "accepted (file_name upd)" "get_file env = Inr fp" "exit_err (wget env) = None"
    and "exit_err (ebook_convert env) = None" "entropy env = Inr f"
  shows "files (handleDocument env upd w)
      = insert_file (fst (generateSlug (entropy env)))
          (outputPath_of (now_unix env) (file_name upd)) (files w)"
  by (simp add: run_registered [OF assms] cleanupFiles_files replay_append state_upload
      state_convert state_download replay_Cons replay_Nil emit_def del: cleanupFiles.simps)

lemma registered_output:
  assumes "accepted (file_name upd)" "get_file env = Inr fp" "exit_err (wget env) = None"
    and "exit_err (ebook_convert env) = None" "entropy env = Inr f"
  shows "disk (handleDocument env upd w) (outputPath_of (now_unix env) (file_name upd))
      = (case written (ebook_convert env) of
           None \<Rightarrow> disk w (outputPath_of (now_unix env) (file_name upd))
         | Some b \<Rightarrow> Some b)"
proof -
  have "outputPath_of (now_unix env) (file_name upd) \<noteq> inputPath_of (now_unix env) (file_name upd)"
    using paths_differ [OF assms(1), of "now_unix env"] by simp
  then show ?thesis
    using content_at_upload [OF assms(1), of env fp w]
    by (simp add: run_registered [OF assms] cleanupFiles_disk replay_append state_upload
        replay_Cons replay_Nil emit_def del: cleanupFiles.simps)
qed

text \<open>A run whose conversion fails: its events but for those of the cleanup, the
  registry, and the two paths.\<close>

lemma convert_failure_events:
  assumes "accepted (file_name upd)" "get_file env = Inr fp" "exit_err (wget env) = None"
    and "exit_err (ebook_convert env) = Some err"
  shows "\<exists>q. run_events env upd w =
           download_events env upd fp @ convert_events env upd @
           [Logged (log_convert @ convert_err @ err @ '', output: '' @
                    combined (ebook_convert env)),
            Sent (TextMessage (chat_id upd) failure_text)] @ q
         \<and> list_all quiet q"
  using run_events_cleanup [OF run_convert_fails [OF assms, of w]] by auto

lemma convert_failure_files:
  assumes "accepted (file_name upd)" "get_file env = Inr fp" "exit_err (wget env) = None"
    and "exit_err (ebook_convert env) = Some err"
  shows "files (handleDocument env upd w) = files w"
  by (simp add: run_convert_fails [OF assms] cleanupFiles_files replay_append state_convert
      state_download replay_Cons replay_Nil emit_def del: cleanupFiles.simps)

lemma convert_failure_paths:
  assumes "accepted (file_name upd)" "get_file env = Inr fp" "exit_err (wget env) = None"
    and "exit_err (ebook_convert env) = Some err"
  shows "disk (handleDocument env upd w) (inputPath_of (now_unix env) (file_name upd)) = None"
    and "disk (handleDocument env upd w) (outputPath_of (now_unix env) (file_name upd)) = None"
  by (simp_all add: run_convert_fails [OF assms] cleanupFiles_disk del: cleanupFiles.simps)

section \<open>The handler\<close>

text \<open>A request for a slash and a slug passes the checks of \<^term>\<open>ServeFile\<close> on the request
  path; every key of the registry is a slug once the registry is only changed by
  runs.\<close>


lemma TrimPrefix_slash: "TrimPrefix (CHR ''/'' # s) ''/'' = s"
  by (simp add: TrimPrefix_def HasPrefix_def)

lemma is_slug_plain:
  assumes "is_slug s"
  shows "CHR ''/'' \<notin> set s \<and> CHR 0x5C \<notin> set s \<and> s \<noteq> [] \<and> s \<noteq> ''.'' \<and> s \<noteq> ''..''"
proof -
  have "CHR ''/'' \<notin> set encodeURL" "CHR 0x5C \<notin> set encodeURL"
    by (simp_all add: encodeURL_def)
  moreover from assms have "set s \<subseteq> set encodeURL" "length s = 3"
    by (auto simp: is_slug_def list_all_iff)
  ultimately show ?thesis by auto
qed

lemma split_slashes_plain:
  "CHR ''/'' \<notin> set t \<Longrightarrow> CHR 0x5C \<notin> set t \<Longrightarrow> split_slashes t = [t]"
  by (induction t) auto

lemma is_slug_path:
  assumes "is_slug s"
  shows "\<not> containsDotDot (CHR ''/'' # s)" "\<not> HasSuffix (CHR ''/'' # s) ''/index.html''"
proof -
  from is_slug_plain [OF assms] have "split_slashes s = [s]" "s \<noteq> ''..''"
    by (simp_all add: split_slashes_plain)
  then show "\<not> containsDotDot (CHR ''/'' # s)"
    by (simp add: containsDotDot_def)
  from assms show "\<not> HasSuffix (CHR ''/'' # s) ''/index.html''"
    by (simp add: HasSuffix_def is_slug_def)
qed

lemma Clean_slug:
  assumes "is_slug s"
  shows "Clean (CHR ''/'' # s) = CHR ''/'' # s"
proof -
  note p = is_slug_plain [OF assms]
  from p have "split_sep (CHR ''/'' # s) = [[], s]"
    by (simp add: split_sep_plain)
  then show ?thesis
    using p by (simp add: Clean_def Let_def clean_elem_def del: split_sep.simps)
qed

lemma cleanPath_slug:
  assumes "is_slug s"
  shows "cleanPath (CHR ''/'' # s) = CHR ''/'' # s"
proof -
  from is_slug_plain [OF assms] have "last (CHR ''/'' # s) \<noteq> CHR ''/''"
    by (cases s rule: rev_cases) auto
  then show ?thesis
    by (simp add: cleanPath_def Let_def Clean_slug [OF assms] del: last.simps)
qed

lemma serve_clean:
  assumes "cleanPath (escaped_path r) = escaped_path r"
  shows "serve lib w r = handler lib w r"
proof -
  have "cleanPath ''*'' \<noteq> ''*''"
    by (simp add: cleanPath_def Clean_def clean_elem_def)
  with assms have "escaped_path r \<noteq> ''*''" by auto
  with assms show ?thesis by (simp add: serve_def)
qed

lemma handler_miss:
  assumes "TrimPrefix (url_path r) ''/'' = '''' \<or> files w (TrimPrefix (url_path r) ''/'') = None"
  shows "handler lib w r = http_Error Map.empty ''Not Found'' 404"
  using assms by (auto simp: handler_def lookup_file_def Let_def)

lemma handler_hit:
  assumes "url_path r = CHR ''/'' # slug" "is_slug slug" "files w slug = Some fp"
  shows "handler lib w r =
    (case disk w fp of
       None \<Rightarrow>
         http_Error [''Content-Disposition'' \<mapsto> ''attachment; filename='' @ Base fp,
                     ''Content-Type'' \<mapsto> ''application/x-mobipocket-ebook'']
           ''404 page not found'' 404
     | Some b \<Rightarrow>
         if conditional r then
           (serve_conditional lib r b)
             \<lparr>headers := (headers (serve_conditional lib r b))
                (''Content-Disposition'' \<mapsto> ''attachment; filename='' @ Base fp)\<rparr>
         else
           \<lparr>status = 200,
            headers = [''Content-Disposition'' \<mapsto> ''attachment; filename='' @ Base fp,
                       ''Content-Type'' \<mapsto> ''application/x-mobipocket-ebook'',
                       ''Accept-Ranges'' \<mapsto> ''bytes'',
                       ''Content-Length'' \<mapsto> show_nat (length b)],
            body = (if http_method r = ''HEAD'' then [] else b)\<rparr>)"
  using assms is_slug_path [OF assms(2)] is_slug_plain [OF assms(2)]
  by (simp add: handler_def lookup_file_def Let_def TrimPrefix_slash ServeFile_def
      split: option.splits)

lemma handler_disposition:
  assumes "url_path r = CHR ''/'' # slug" "is_slug slug" "files w slug = Some fp"
  shows "headers (handler lib w r) ''Content-Disposition''
         = Some (''attachment; filename='' @ Base fp)"
  by (simp add: handler_hit [OF assms] http_Error_def split: option.splits)

lemma is_slug_generated: "entropy env = Inr f \<Longrightarrow> is_slug (fst (generateSlug (entropy env)))"
  by (simp add: generateSlug_Inr is_slug_three del: EncodeToString.simps)

lemma disposition_after_success:
  assumes "accepted (file_name upd)" "get_file env = Inr fp" "exit_err (wget env) = None"
    and "exit_err (ebook_convert env) = None" "entropy env = Inr f"
    and "url_path r = CHR ''/'' # fst (generateSlug (entropy env))"
  shows "headers (handler lib (handleDocument env upd w) r) ''Content-Disposition''
         = Some (''attachment; filename='' @ Base (outputPath_of (now_unix env) (file_name upd)))"
proof -
  from registered_files [OF assms(1-5), of w]
  have "files (handleDocument env upd w) (fst (generateSlug (entropy env)))
      = Some (outputPath_of (now_unix env) (file_name upd))"
    by (simp add: insert_file_def)
  from handler_disposition [OF assms(6) is_slug_generated [OF assms(5)] this] show ?thesis .
qed

lemma files_of_run:
  "files (handleDocument env upd w) = files w \<or>
   (\<exists>f. entropy env = Inr f \<and>
      files (handleDocument env upd w) =
        insert_file (fst (generateSlug (entropy env)))
          (outputPath_of (now_unix env) (file_name upd)) (files w))"
proof (cases rule: run_branches [of upd env w])
  case rejected
  then show ?thesis by (simp add: replay_Cons replay_Nil emit_def)
next
  case (getfile err)
  then show ?thesis by (simp add: replay_Cons replay_Nil emit_def)
next
  case (download fp err)
  then show ?thesis
    by (simp add: cleanupFiles_files replay_append state_download replay_Cons replay_Nil emit_def
        del: cleanupFiles.simps)
next
  case (convert fp err)
  then show ?thesis
    by (simp add: cleanupFiles_files replay_append state_download state_convert replay_Cons
        replay_Nil emit_def del: cleanupFiles.simps)
next
  case (slug fp err)
  then show ?thesis
    by (simp add: cleanupFiles_files replay_append state_download state_convert replay_Cons
        replay_Nil emit_def del: cleanupFiles.simps)
next
  case (registered fp f)
  then show ?thesis
    by (simp add: cleanupFiles_files replay_append state_download state_convert state_upload
        replay_Cons replay_Nil emit_def del: cleanupFiles.simps)
qed

lemma registry_slugs:
  assumes "\<forall>s. files w s \<noteq> None \<longrightarrow> is_slug s"
  shows "\<forall>s. files (handleDocument env upd w) s \<noteq> None \<longrightarrow> is_slug s"
  using files_of_run [of env upd w] assms is_slug_generated [of env]
  by (auto simp: insert_file_def split: if_splits)

section \<open>The example runs, served\<close>

text \<open>The states after one and after two example runs, and a file name with a
  separator.\<close>

lemma lookup_file_True: "lookup_file m s = (p, True) \<Longrightarrow> m s = Some p"
  by (simp add: lookup_file_def split: option.splits)

lemma upd_sep_sel: "file_name upd_sep = ''/../b.fb2''" "chat_id upd_sep = 77"
  by (simp_all add: upd_sep_def)

lemma accepted_sep: "accepted ''/../b.fb2''"
  by (simp add: accepted_def Ext_def ToLower_def to_lower_char_def)

lemma outputPath_sep: "outputPath_of 1700000000 ''/../b.fb2'' = ''uploads/b.mobi''"
  by (simp add: outputPath_of_def show_int_example Ext_def TrimSuffix_def HasSuffix_def
      Join_def uploadDir_def Clean_def clean_elem_def)

lemma Base_sep: "Base ''uploads/b.mobi'' = ''b.mobi''"
  by (simp add: Base_def)

lemma plain_name_sep:
  "show_int 1700000000 @ ''_'' @ TrimSuffix ''/../b.fb2'' (Ext ''/../b.fb2'') @ ''.mobi''
   = ''1700000000_/../b.mobi''"
  by (simp add: show_int_example Ext_def TrimSuffix_def HasSuffix_def)

lemma is_slug_example: "is_slug ''aB1''"
  by (simp add: is_slug_def encodeURL_def)

lemma one_run_state:
  "files (handleDocument env_ok upd_book world0) ''aB1'' = Some ''uploads/1700000000_book.mobi''"
  "disk (handleDocument env_ok upd_book world0) ''uploads/1700000000_book.mobi'' = Some [0x4D, 0x4F]"
  "files (handleDocument env_ok upd_book world0) ''zzz'' = None"
proof -
  have a: "accepted (file_name upd_book)"
    using accepted_book by (simp add: upd_book_sel)
  note f = registered_files [OF a env_ok_sel(2-4,7), of world0]
  from f show "files (handleDocument env_ok upd_book world0) ''aB1'' = Some ''uploads/1700000000_book.mobi''"
    by (simp add: insert_file_def upd_book_sel env_ok_sel slug_example outputPath_book)
  from f show "files (handleDocument env_ok upd_book world0) ''zzz'' = None"
    by (simp add: insert_file_def upd_book_sel env_ok_sel slug_example world0_def)
  from registered_output [OF a env_ok_sel(2-4,7), of world0]
  show "disk (handleDocument env_ok upd_book world0) ''uploads/1700000000_book.mobi'' = Some [0x4D, 0x4F]"
    by (simp add: upd_book_sel env_ok_sel outputPath_book)
qed

lemma two_runs_state:
  "files (handleDocument env_convert_fails upd_book (handleDocument env_ok upd_book world0)) ''aB1''
     = Some ''uploads/1700000000_book.mobi''"
  "disk (handleDocument env_convert_fails upd_book (handleDocument env_ok upd_book world0))
     ''uploads/1700000000_book.mobi'' = None"
proof -
  have a: "accepted (file_name upd_book)"
    using accepted_book by (simp add: upd_book_sel)
  show "files (handleDocument env_convert_fails upd_book (handleDocument env_ok upd_book world0)) ''aB1''
     = Some ''uploads/1700000000_book.mobi''"
    by (simp add: convert_failure_files [OF a env_convert_fails_sel(2-4)] one_run_state)
  from convert_failure_paths(2) [OF a env_convert_fails_sel(2-4),
      of "handleDocument env_ok upd_book world0"]
  show "disk (handleDocument env_convert_fails upd_book (handleDocument env_ok upd_book world0))
     ''uploads/1700000000_book.mobi'' = None"
    by (simp add: upd_book_sel env_convert_fails_sel outputPath_book)
qed

lemma sent_upload_fails:
  "sent_messages (run_events env_upload_fails upd_book world0) =
     [TextMessage 77 start_text,
      TextMessage 77 (done_text @ ''http://example.org:11477/aB1''),
      DocumentMessage 77 ''1700000000_book.mobi'' [0x4D, 0x4F] caption_text,
      TextMessage 77 failure_text]"
proof -
  have a: "accepted (file_name upd_book)"
    using accepted_book by (simp add: upd_book_sel)
  have c: "disk (replay (download_events env_upload_fails upd_book ''documents/file_7.fb2'' @
                         convert_events env_upload_fails upd_book) world0)
             (outputPath_of (now_unix env_upload_fails) (file_name upd_book))
           = Some [0x4D, 0x4F]"
    using content_at_upload [OF a, of env_upload_fails "''documents/file_7.fb2''" world0]
    by (simp add: env_upload_fails_sel)
  from run_events_cleanup [OF run_registered [OF a env_upload_fails_sel(2-4,6), of world0]]
  obtain q where
    "run_events env_upload_fails upd_book world0 =
       (download_events env_upload_fails upd_book ''documents/file_7.fb2'' @
        convert_events env_upload_fails upd_book @
        [Inserted (fst (generateSlug (entropy env_upload_fails)))
           (outputPath_of (now_unix env_upload_fails) (file_name upd_book)),
         Sent (TextMessage (chat_id upd_book)
           (done_text @ ''http://'' @ server_host env_upload_fails @ ''/'' @
            fst (generateSlug (entropy env_upload_fails))))] @
        upload_events env_upload_fails upd_book (Some [0x4D, 0x4F])) @ q"
    "list_all quiet q"
    unfolding c by blast
  then show ?thesis
    by (simp add: sent_messages_append sent_download sent_convert sent_messages_quiet sent_upload
        upd_book_sel env_upload_fails_sel slug_example outputPath_book Base_book)
qed

lemma env_no_output_sel: "now_unix env_no_output = 1700000000"
  "get_file env_no_output = Inr ''documents/file_7.fb2''"
  "exit_err (wget env_no_output) = None"
  "exit_err (ebook_convert env_no_output) = None"
  "written (ebook_convert env_no_output) = None"
  "written (wget env_no_output) = Some [0x3C, 0x46]"
  "entropy env_no_output = Inr (\<lambda>i. [0x68, 0x1D, 0x40] ! i)"
  "send_doc env_no_output = None"
  "token env_no_output = ''42:secret''" "server_host env_no_output = ''example.org:11477''"
  by (simp_all add: env_no_output_def env_ok_def)

lemma run_events_no_output:
  "run_events env_no_output upd_book world0 =
     [Sent (TextMessage 77 start_text), GetFile ''BQACAgIAAx'',
      Wrote ''uploads/1700000000_book.fb2'' [0x3C, 0x46],
      Ran [''wget'', ''-O'', ''uploads/1700000000_book.fb2'',
           ''https://api.telegram.org/file/bot42:secret/documents/file_7.fb2''] None,
      Ran [''ebook-convert'', ''uploads/1700000000_book.fb2'', ''uploads/1700000000_book.mobi'',
           ''--output-profile'', ''kindle'', ''--mobi-file-type'', ''both''] None] @
     Inserted ''aB1'' ''uploads/1700000000_book.mobi'' #
     [Sent (TextMessage 77 (done_text @ ''http://example.org:11477/aB1'')),
      Logged (log_send @ ''open uploads/1700000000_book.mobi: no such file or directory''),
      Sent (TextMessage 77 failure_text),
      Removed ''uploads/1700000000_book.fb2'']"
proof -
  have a: "accepted (file_name upd_book)"
    using accepted_book by (simp add: upd_book_sel)
  show ?thesis
    unfolding run_events_def run_registered [OF a env_no_output_sel(2-4,7)]
    by (simp add: upd_book_sel env_no_output_sel inputPath_book outputPath_book slug_example
        Base_book download_events_def convert_events_def upload_events_def wrote_events_def
        convert_argv_def Link_def Let_def replay_append replay_Cons replay_Nil emit_def
        os_Remove_def log_Printf_def world0_def)
qed

lemma no_output_state:
  "files (handleDocument env_no_output upd_book world0) ''aB1'' = Some ''uploads/1700000000_book.mobi''"
  "disk (handleDocument env_no_output upd_book world0) ''uploads/1700000000_book.mobi'' = None"
proof -
  have a: "accepted (file_name upd_book)"
    using accepted_book by (simp add: upd_book_sel)
  from registered_files [OF a env_no_output_sel(2-4,7), of world0]
  show "files (handleDocument env_no_output upd_book world0) ''aB1'' = Some ''uploads/1700000000_book.mobi''"
    by (simp add: insert_file_def upd_book_sel env_no_output_sel slug_example outputPath_book)
  from registered_output [OF a env_no_output_sel(2-4,7), of world0]
  show "disk (handleDocument env_no_output upd_book world0) ''uploads/1700000000_book.mobi'' = None"
    by (simp add: upd_book_sel env_no_output_sel outputPath_book world0_def)
qed

lemma cleanPath_examples: "cleanPath ''/aB1'' = ''/aB1''" "cleanPath ''/'' = ''/''"
  "cleanPath ''/zzz'' = ''/zzz''"
  by (simp_all add: cleanPath_def Clean_def clean_elem_def)

lemma get_request_sel: "http_method (get_request p) = ''GET''" "escaped_path (get_request p) = p"
  "url_path (get_request p) = p" "\<not> conditional (get_request p)"
  by (simp_all add: get_request_def conditional_def)

section \<open>The properties\<close>

subsection \<open>Documents whose extension is not accepted\<close>

text \<open>
  C4. For a document whose file name's extension, compared without regard to case, is
  neither \<^verbatim>\<open>.fb2\<close> nor \<^verbatim>\<open>.txt\<close>, the only event of the run is the message with
  the rejection text to the chat of the document: \<^verbatim>\<open>bot.GetFile\<close> is not called, no
  process runs, no file is written or removed and nothing is inserted into the
  registry; disk and registry are as before; and the rejection text is not the
  text of the failure message.
\<close>

theorem rejected_document_has_no_effect:
  assumes "\<not> accepted (file_name upd)"
  shows "run_events env upd w = [Sent (TextMessage (chat_id upd) reject_text)]
    \<and> files (handleDocument env upd w) = files w
    \<and> disk (handleDocument env upd w) = disk w
    \<and> reject_text \<noteq> failure_text"
proof -
  note r = run_rejected [OF assms, of env w]
  have "run_events env upd w = [Sent (TextMessage (chat_id upd) reject_text)]"
    by (rule run_events_replay [OF r])
  moreover have "files (handleDocument env upd w) = files w"
    and "disk (handleDocument env upd w) = disk w"
    by (simp_all add: r replay_Cons replay_Nil emit_def)
  ultimately show ?thesis using texts_differ(1) by simp
qed

theorem rejected_document_witness:
  "\<not> accepted ''book.pdf''
   \<and> run_events env_ok upd_pdf world0 = [Sent (TextMessage 77 reject_text)]
   \<and> files (handleDocument env_ok upd_pdf world0) = Map.empty
   \<and> disk (handleDocument env_ok upd_pdf world0) = Map.empty"
  using rejected_document_has_no_effect [OF not_accepted_pdf, of env_ok world0] not_accepted_pdf
  by (simp add: upd_pdf_def world0_def)

subsection \<open>The registry\<close>

text \<open>
  C5. After the insertion of path \<open>p\<close> at slug \<open>s\<close> a lookup of \<open>s\<close> finds \<open>p\<close>; it
  still finds \<open>p\<close> after any later insertions at other slugs; a later insertion at the
  same slug makes the lookup find the later path (the last writer wins); and an
  insertion at another slug does not change what a lookup of \<open>s\<close> finds.
\<close>

theorem registry_last_writer_wins:
  "lookup_file (insert_file s p m) s = (p, True)
   \<and> (s \<notin> fst ` set later \<longrightarrow> lookup_file (inserts later (insert_file s p m)) s = (p, True))
   \<and> lookup_file (insert_file s p' (inserts later (insert_file s p m))) s = (p', True)
   \<and> (s' \<noteq> s \<longrightarrow> lookup_file (insert_file s' p' m) s = lookup_file m s)"
  by (simp add: lookup_file_def inserts_other) (simp add: insert_file_def)

theorem registry_witness:
  "lookup_file (insert_file ''aB1'' ''uploads/1_a.mobi'' Map.empty) ''aB1'' = (''uploads/1_a.mobi'', True)
   \<and> lookup_file (inserts [(''xyz'', ''uploads/2_b.mobi''), (''q-_'', ''uploads/3_c.mobi'')]
        (insert_file ''aB1'' ''uploads/1_a.mobi'' Map.empty)) ''aB1'' = (''uploads/1_a.mobi'', True)
   \<and> lookup_file (insert_file ''aB1'' ''uploads/4_d.mobi''
        (inserts [(''xyz'', ''uploads/2_b.mobi''), (''q-_'', ''uploads/3_c.mobi'')]
          (insert_file ''aB1'' ''uploads/1_a.mobi'' Map.empty))) ''aB1'' = (''uploads/4_d.mobi'', True)
   \<and> lookup_file (insert_file ''xyz'' ''uploads/2_b.mobi'' Map.empty) ''aB1'' = ('''', False)"
  using registry_last_writer_wins [of "''aB1''" "''uploads/1_a.mobi''" Map.empty
      "[(''xyz'', ''uploads/2_b.mobi''), (''q-_'', ''uploads/3_c.mobi'')]" "''uploads/4_d.mobi''" "''xyz''"]
  by (simp add: lookup_file_def insert_file_def)

subsection \<open>Slug generation\<close>

text \<open>
  C8. \<^verbatim>\<open>generateSlug\<close> reads three bytes from the entropy source; when the source
  fails it returns the empty string and the source's error; otherwise it returns no
  error and the first three characters of the raw URL-safe base64 encoding of the
  three bytes, that is three characters of the alphabet \<^verbatim>\<open>A-Z a-z 0-9 - _\<close>. It
  returns an error exactly when the entropy source fails.
\<close>

theorem generateSlug_spec:
  "(case src of
      Inl err \<Rightarrow> generateSlug src = ('''', Some err)
    | Inr f \<Rightarrow>
        generateSlug src = (take 3 (EncodeToString [f 0, f 1, f 2]), None)
        \<and> is_slug (fst (generateSlug src)))
   \<and> (snd (generateSlug src) \<noteq> None) = isl src"
  by (cases src) (simp_all add: generateSlug_Inl generateSlug_Inr is_slug_three del: EncodeToString.simps)

theorem generateSlug_witness:
  "generateSlug (Inr (\<lambda>i. [0x68, 0x1D, 0x40] ! i)) = (''aB1'', None) \<and> is_slug ''aB1''
   \<and> generateSlug (Inl ''EOF'') = ('''', Some ''EOF'')"
  using generateSlug_spec [of "Inr (\<lambda>i. [0x68, 0x1D, 0x40] ! i)"] generateSlug_spec [of "Inl ''EOF''"]
  by (simp add: enc_def encodeURL_def is_slug_def)

subsection \<open>A run in which every step succeeds\<close>

text \<open>
  C2, as the code has it. In a run in which the document is accepted and
  \<^verbatim>\<open>bot.GetFile\<close>, the download, the conversion (it returns no error) and the slug
  generation succeed, afterwards the input path is not on disk, the output path is
  as the conversion left it (the run does not remove it: it holds what the tool has
  written, and when the tool has written nothing it is as it was before the run),
  and a lookup of the generated slug in the registry finds exactly the output path.
  Whether the upload to the chat succeeds makes no difference.
\<close>

theorem full_success:
  assumes "accepted (file_name upd)" "get_file env = Inr fp" "exit_err (wget env) = None"
    and "exit_err (ebook_convert env) = None" "entropy env = Inr f"
  shows "disk (handleDocument env upd w) (inputPath_of (now_unix env) (file_name upd)) = None
    \<and> disk (handleDocument env upd w) (outputPath_of (now_unix env) (file_name upd))
        = (case written (ebook_convert env) of
             None \<Rightarrow> disk w (outputPath_of (now_unix env) (file_name upd))
           | Some b \<Rightarrow> Some b)
    \<and> lookup_file (files (handleDocument env upd w)) (fst (generateSlug (entropy env)))
        = (outputPath_of (now_unix env) (file_name upd), True)"
proof -
  have "disk (handleDocument env upd w) (inputPath_of (now_unix env) (file_name upd)) = None"
    using assms(1,2) by (rule input_removed)
  moreover have "lookup_file (files (handleDocument env upd w)) (fst (generateSlug (entropy env)))
        = (outputPath_of (now_unix env) (file_name upd), True)"
    by (simp add: registered_files [OF assms] lookup_file_def insert_file_def)
  ultimately show ?thesis
    using registered_output [OF assms, of w] by simp
qed

theorem full_success_witness:
  "accepted ''book.fb2''
   \<and> disk (handleDocument env_ok upd_book world0) ''uploads/1700000000_book.fb2'' = None
   \<and> disk (handleDocument env_ok upd_book world0) ''uploads/1700000000_book.mobi'' = Some [0x4D, 0x4F]
   \<and> lookup_file (files (handleDocument env_ok upd_book world0)) ''aB1''
       = (''uploads/1700000000_book.mobi'', True)"
proof -
  have a: "accepted (file_name upd_book)"
    using accepted_book by (simp add: upd_book_sel)
  from full_success [OF a env_ok_sel(2-4,7), of world0] show ?thesis
    using accepted_book
    by (simp add: inputPath_book outputPath_book slug_example upd_book_sel env_ok_sel)
qed

text \<open>
  That the output path exists after such a run fails when the tool exits with status
  zero and has written nothing: download, conversion and slug generation succeed,
  the slug is registered with the output path, and nothing is at that path.
\<close>

theorem full_success_counterexample:
  "accepted ''book.fb2''
   \<and> get_file env_no_output = Inr ''documents/file_7.fb2''
   \<and> exit_err (wget env_no_output) = None
   \<and> exit_err (ebook_convert env_no_output) = None
   \<and> generateSlug (entropy env_no_output) = (''aB1'', None)
   \<and> lookup_file (files (handleDocument env_no_output upd_book world0)) ''aB1''
       = (''uploads/1700000000_book.mobi'', True)
   \<and> disk (handleDocument env_no_output upd_book world0) ''uploads/1700000000_book.mobi'' = None"
  using accepted_book
  by (simp add: no_output_state env_no_output_sel slug_example lookup_file_def)

subsection \<open>A run in which the conversion fails\<close>

text \<open>
  C3. In a run in which the conversion tool is run and exits with an error, the
  registry is as before and no insertion happens, afterwards neither the input path
  nor the output path is on disk, and the error that \<^verbatim>\<open>convertFile\<close> returns, which
  \<^verbatim>\<open>handleDocument\<close> logs, ends with the combined standard output and error of the
  tool.
\<close>

theorem conversion_failure:
  assumes "accepted (file_name upd)" "get_file env = Inr fp" "exit_err (wget env) = None"
    and "exit_err (ebook_convert env) = Some err"
  shows "files (handleDocument env upd w) = files w
    \<and> (\<forall>s p. Inserted s p \<notin> set (run_events env upd w))
    \<and> disk (handleDocument env upd w) (inputPath_of (now_unix env) (file_name upd)) = None
    \<and> disk (handleDocument env upd w) (outputPath_of (now_unix env) (file_name upd)) = None
    \<and> fst (convertFile env (inputPath_of (now_unix env) (file_name upd))
             (outputPath_of (now_unix env) (file_name upd)) w')
        = Some (convert_err @ err @ '', output: '' @ combined (ebook_convert env))
    \<and> Logged (log_convert @ convert_err @ err @ '', output: '' @ combined (ebook_convert env))
        \<in> set (run_events env upd w)"
proof -
  from convert_failure_events [OF assms, of w] obtain q where
    q: "run_events env upd w = download_events env upd fp @ convert_events env upd @
          [Logged (log_convert @ convert_err @ err @ '', output: '' @ combined (ebook_convert env)),
           Sent (TextMessage (chat_id upd) failure_text)] @ q"
      "list_all quiet q"
    by blast
  have "\<forall>s p. Inserted s p \<notin> set (run_events env upd w)"
    using quiet_no_insert [OF q(2)] by (simp add: q(1) no_insert_download no_insert_convert)
  moreover have "fst (convertFile env (inputPath_of (now_unix env) (file_name upd))
             (outputPath_of (now_unix env) (file_name upd)) w')
        = Some (convert_err @ err @ '', output: '' @ combined (ebook_convert env))"
    using assms(4) by (simp add: convertFile_def Let_def)
  moreover have "Logged (log_convert @ convert_err @ err @ '', output: '' @ combined (ebook_convert env))
        \<in> set (run_events env upd w)"
    by (simp add: q(1))
  ultimately show ?thesis
    using convert_failure_files [OF assms, of w] convert_failure_paths [OF assms, of w] by blast
qed

theorem conversion_failure_witness:
  "accepted ''book.fb2''
   \<and> files (handleDocument env_convert_fails upd_book world0) = Map.empty
   \<and> disk (handleDocument env_convert_fails upd_book world0) ''uploads/1700000000_book.fb2'' = None
   \<and> disk (handleDocument env_convert_fails upd_book world0) ''uploads/1700000000_book.mobi'' = None
   \<and> Logged (log_convert @ convert_err @ ''exit status 1, output: bad input'')
       \<in> set (run_events env_convert_fails upd_book world0)"
proof -
  have a: "accepted (file_name upd_book)"
    using accepted_book by (simp add: upd_book_sel)
  from conversion_failure [OF a env_convert_fails_sel(2-4), of world0] show ?thesis
    using accepted_book
    by (simp add: inputPath_book outputPath_book upd_book_sel env_convert_fails_sel world0_def)
qed

subsection \<open>Insertion after conversion, removal of the input\<close>

text \<open>
  C1, as the code has it. A run is the replay of its events, so the state at the time
  of an event is the replay of the events before it. Whenever a run inserts into the
  registry, the conversion tool has returned without error among the earlier events
  and the entry is the generated slug with the output path; at the time of the
  insertion the output path holds what the tool has written, and when the tool has
  written nothing the path is as it was before the run. And in every run that reaches
  the download step (the document is accepted and \<^verbatim>\<open>bot.GetFile\<close> succeeds), whether it
  ends in success or in a failure of the download, of the conversion, of the slug
  generation or of the upload, the input path is not on disk afterwards.
\<close>

theorem insert_after_conversion_and_input_removed:
  fixes env upd w
  defines "inp \<equiv> inputPath_of (now_unix env) (file_name upd)"
    and "out \<equiv> outputPath_of (now_unix env) (file_name upd)"
  shows "(\<forall>es1 es2 s p. run_events env upd w = es1 @ Inserted s p # es2 \<longrightarrow>
            Ran (convert_argv inp out) None \<in> set es1
          \<and> exit_err (ebook_convert env) = None
          \<and> s = fst (generateSlug (entropy env)) \<and> p = out
          \<and> disk (replay es1 w) p
              = (case written (ebook_convert env) of None \<Rightarrow> disk w out | Some b \<Rightarrow> Some b))
    \<and> handleDocument env upd w = replay (run_events env upd w) w
    \<and> (accepted (file_name upd) \<and> \<not> isl (get_file env) \<longrightarrow>
          disk (handleDocument env upd w) inp = None)"
proof (intro conjI allI impI)
  show "handleDocument env upd w = replay (run_events env upd w) w"
    by (rule run_is_replay)
next
  assume "accepted (file_name upd) \<and> \<not> isl (get_file env)"
  then obtain fp where "accepted (file_name upd)" "get_file env = Inr fp"
    by (cases "get_file env") auto
  then show "disk (handleDocument env upd w) inp = None"
    unfolding inp_def by (rule input_removed)
next
  fix es1 es2 s p
  assume eq: "run_events env upd w = es1 @ Inserted s p # es2"
  then have "Inserted s p \<in> set (run_events env upd w)" by simp
  from no_insert_unless_registered [OF this] obtain fp f where
    ok: "accepted (file_name upd)" "get_file env = Inr fp" "exit_err (wget env) = None"
      "exit_err (ebook_convert env) = None" "entropy env = Inr f"
    by (cases "get_file env"; cases "entropy env") auto
  from registered_split [OF ok, of w] obtain q where
    q: "run_events env upd w =
          (download_events env upd fp @ convert_events env upd) @
          Inserted (fst (generateSlug (entropy env))) out # q"
      "\<forall>s p. Inserted s p \<notin> set q"
    unfolding out_def by blast
  have "\<forall>s p. Inserted s p \<notin> set (download_events env upd fp @ convert_events env upd)"
    by (simp add: no_insert_download no_insert_convert)
  from insert_split [OF _ this q(2)] eq q(1)
  have es1: "es1 = download_events env upd fp @ convert_events env upd" and p: "p = out"
    and s: "s = fst (generateSlug (entropy env))"
    by metis+
  show "exit_err (ebook_convert env) = None" by (rule ok(4))
  show "p = out" by (rule p)
  show "s = fst (generateSlug (entropy env))" by (rule s)
  show "Ran (convert_argv inp out) None \<in> set es1"
    by (simp add: es1 convert_events_def Let_def ok(4) inp_def out_def)
  show "disk (replay es1 w) p
      = (case written (ebook_convert env) of None \<Rightarrow> disk w out | Some b \<Rightarrow> Some b)"
    unfolding es1 p out_def by (rule content_at_upload [OF ok(1)])
qed

theorem insert_after_conversion_witness:
  "run_events env_ok upd_book world0 =
     [Sent (TextMessage 77 start_text), GetFile ''BQACAgIAAx'',
      Wrote ''uploads/1700000000_book.fb2'' [0x3C, 0x46],
      Ran [''wget'', ''-O'', ''uploads/1700000000_book.fb2'',
           ''https://api.telegram.org/file/bot42:secret/documents/file_7.fb2''] None,
      Wrote ''uploads/1700000000_book.mobi'' [0x4D, 0x4F],
      Ran [''ebook-convert'', ''uploads/1700000000_book.fb2'', ''uploads/1700000000_book.mobi'',
           ''--output-profile'', ''kindle'', ''--mobi-file-type'', ''both''] None] @
     Inserted ''aB1'' ''uploads/1700000000_book.mobi'' #
     [Sent (TextMessage 77 (done_text @ ''http://example.org:11477/aB1'')),
      Sent (DocumentMessage 77 ''1700000000_book.mobi'' [0x4D, 0x4F] caption_text),
      Removed ''uploads/1700000000_book.fb2'']
   \<and> exit_err (ebook_convert env_ok) = None
   \<and> disk (replay
        [Sent (TextMessage 77 start_text), GetFile ''BQACAgIAAx'',
         Wrote ''uploads/1700000000_book.fb2'' [0x3C, 0x46],
         Ran [''wget'', ''-O'', ''uploads/1700000000_book.fb2'',
              ''https://api.telegram.org/file/bot42:secret/documents/file_7.fb2''] None,
         Wrote ''uploads/1700000000_book.mobi'' [0x4D, 0x4F],
         Ran [''ebook-convert'', ''uploads/1700000000_book.fb2'', ''uploads/1700000000_book.mobi'',
              ''--output-profile'', ''kindle'', ''--mobi-file-type'', ''both''] None]
        world0) ''uploads/1700000000_book.mobi'' = Some [0x4D, 0x4F]
   \<and> accepted ''book.fb2'' \<and> \<not> isl (get_file env_ok)
   \<and> disk (handleDocument env_ok upd_book world0) ''uploads/1700000000_book.fb2'' = None"
proof -
  note t = insert_after_conversion_and_input_removed [of env_ok upd_book world0]
  note a = t [THEN conjunct1, rule_format, OF run_events_book]
  note b = t [THEN conjunct2, THEN conjunct2]
  from a have "disk (replay
        [Sent (TextMessage 77 start_text), GetFile ''BQACAgIAAx'',
         Wrote ''uploads/1700000000_book.fb2'' [0x3C, 0x46],
         Ran [''wget'', ''-O'', ''uploads/1700000000_book.fb2'',
              ''https://api.telegram.org/file/bot42:secret/documents/file_7.fb2''] None,
         Wrote ''uploads/1700000000_book.mobi'' [0x4D, 0x4F],
         Ran [''ebook-convert'', ''uploads/1700000000_book.fb2'', ''uploads/1700000000_book.mobi'',
              ''--output-profile'', ''kindle'', ''--mobi-file-type'', ''both''] None]
        world0) ''uploads/1700000000_book.mobi'' = Some [0x4D, 0x4F]"
    by (simp add: env_ok_sel upd_book_sel outputPath_book)
  moreover from a have "exit_err (ebook_convert env_ok) = None" by blast
  moreover from b have "disk (handleDocument env_ok upd_book world0) ''uploads/1700000000_book.fb2'' = None"
    using accepted_book by (simp add: upd_book_sel env_ok_sel inputPath_book)
  ultimately show ?thesis
    using run_events_book accepted_book by (simp add: env_ok_sel)
qed

text \<open>
  That the output file is on disk whenever an entry is inserted fails: the code tests
  only the error of \<^verbatim>\<open>convertFile\<close> (line 124), so when the tool exits with status
  zero and has written nothing, the slug is inserted while nothing is at the output
  path.
\<close>

theorem insert_without_output_counterexample:
  "run_events env_no_output upd_book world0 =
     [Sent (TextMessage 77 start_text), GetFile ''BQACAgIAAx'',
      Wrote ''uploads/1700000000_book.fb2'' [0x3C, 0x46],
      Ran [''wget'', ''-O'', ''uploads/1700000000_book.fb2'',
           ''https://api.telegram.org/file/bot42:secret/documents/file_7.fb2''] None,
      Ran [''ebook-convert'', ''uploads/1700000000_book.fb2'', ''uploads/1700000000_book.mobi'',
           ''--output-profile'', ''kindle'', ''--mobi-file-type'', ''both''] None] @
     Inserted ''aB1'' ''uploads/1700000000_book.mobi'' #
     [Sent (TextMessage 77 (done_text @ ''http://example.org:11477/aB1'')),
      Logged (log_send @ ''open uploads/1700000000_book.mobi: no such file or directory''),
      Sent (TextMessage 77 failure_text),
      Removed ''uploads/1700000000_book.fb2'']
   \<and> exit_err (ebook_convert env_no_output) = None
   \<and> disk (replay
        [Sent (TextMessage 77 start_text), GetFile ''BQACAgIAAx'',
         Wrote ''uploads/1700000000_book.fb2'' [0x3C, 0x46],
         Ran [''wget'', ''-O'', ''uploads/1700000000_book.fb2'',
              ''https://api.telegram.org/file/bot42:secret/documents/file_7.fb2''] None,
         Ran [''ebook-convert'', ''uploads/1700000000_book.fb2'', ''uploads/1700000000_book.mobi'',
              ''--output-profile'', ''kindle'', ''--mobi-file-type'', ''both''] None]
        world0) ''uploads/1700000000_book.mobi'' = None"
  using run_events_no_output
  by (simp add: env_no_output_sel replay_Cons replay_Nil emit_def world0_def)

subsection \<open>What the user is sent\<close>

text \<open>
  C7, as the code has it. The messages of a run to the chat are: for a document that
  is not accepted, the rejection message alone; otherwise first the progress message
  (``starting the conversion''), and then either the failure message alone, when
  \<^verbatim>\<open>bot.GetFile\<close>, the download, the conversion or the slug generation fails, or the
  completion message with the link followed by the failure message, when the output
  file cannot be read, or by the converted file as a document, which the failure
  message follows when sending the document fails.
\<close>

theorem messages_of_a_run:
  "sent_messages (run_events env upd w) =
     (if \<not> accepted (file_name upd) then [TextMessage (chat_id upd) reject_text]
      else
        TextMessage (chat_id upd) start_text #
        (if isl (get_file env) \<or> exit_err (wget env) \<noteq> None \<or>
            exit_err (ebook_convert env) \<noteq> None \<or> isl (entropy env)
         then [TextMessage (chat_id upd) failure_text]
         else
           TextMessage (chat_id upd)
             (done_text @ ''http://'' @ server_host env @ ''/'' @ fst (generateSlug (entropy env))) #
           (case (case written (ebook_convert env) of
                    None \<Rightarrow> disk w (outputPath_of (now_unix env) (file_name upd))
                  | Some b \<Rightarrow> Some b) of
              None \<Rightarrow> [TextMessage (chat_id upd) failure_text]
            | Some b \<Rightarrow>
                DocumentMessage (chat_id upd)
                  (Base (outputPath_of (now_unix env) (file_name upd))) b caption_text #
                (case send_doc env of
                   None \<Rightarrow> []
                 | Some err \<Rightarrow> [TextMessage (chat_id upd) failure_text]))))"
proof (cases rule: run_branches [of upd env w])
  case rejected
  from run_events_replay [OF rejected(2)] rejected(1) show ?thesis by simp
next
  case (getfile err)
  from run_events_replay [OF getfile(3)] getfile(1,2) show ?thesis by simp
next
  case (download fp err)
  from run_events_cleanup [OF download(4)] obtain q where
    "run_events env upd w = (download_events env upd fp @
       [Logged (log_save @ err), Sent (TextMessage (chat_id upd) failure_text)]) @ q"
    "list_all quiet q" by blast
  then show ?thesis
    using download(1-3)
    by (simp add: sent_messages_append sent_download sent_messages_quiet)
next
  case (convert fp err)
  from run_events_cleanup [OF convert(5)] obtain q where
    "run_events env upd w = (download_events env upd fp @ convert_events env upd @
       [Logged (log_convert @ convert_err @ err @ '', output: '' @ combined (ebook_convert env)),
        Sent (TextMessage (chat_id upd) failure_text)]) @ q"
    "list_all quiet q" by blast
  then show ?thesis
    using convert(1-4)
    by (simp add: sent_messages_append sent_download sent_convert sent_messages_quiet)
next
  case (slug fp err)
  from run_events_cleanup [OF slug(6)] obtain q where
    "run_events env upd w = (download_events env upd fp @ convert_events env upd @
       [Logged (log_slug @ err), Sent (TextMessage (chat_id upd) failure_text)]) @ q"
    "list_all quiet q" by blast
  then show ?thesis
    using slug(1-5)
    by (simp add: sent_messages_append sent_download sent_convert sent_messages_quiet)
next
  case (registered fp f)
  from run_events_cleanup [OF registered(6)] obtain q where
    "run_events env upd w =
       (download_events env upd fp @ convert_events env upd @
         [Inserted (fst (generateSlug (entropy env)))
            (outputPath_of (now_unix env) (file_name upd)),
          Sent (TextMessage (chat_id upd)
            (done_text @ ''http://'' @ server_host env @ ''/'' @
             fst (generateSlug (entropy env))))] @
         upload_events env upd
           (disk (replay (download_events env upd fp @ convert_events env upd) w)
              (outputPath_of (now_unix env) (file_name upd)))) @ q"
    "list_all quiet q" by blast
  then show ?thesis
    using registered(1-5)
    by (simp add: sent_messages_append sent_download sent_convert sent_messages_quiet
        sent_upload content_at_upload)
qed

theorem messages_of_a_run_witness:
  "accepted ''book.fb2''
   \<and> sent_messages (run_events env_upload_fails upd_book world0) =
       [TextMessage 77 start_text,
        TextMessage 77 (done_text @ ''http://example.org:11477/aB1''),
        DocumentMessage 77 ''1700000000_book.mobi'' [0x4D, 0x4F] caption_text,
        TextMessage 77 failure_text]
   \<and> sent_messages (run_events env_convert_fails upd_book world0) =
       [TextMessage 77 start_text, TextMessage 77 failure_text]"
  using messages_of_a_run [of env_upload_fails upd_book world0]
    messages_of_a_run [of env_convert_fails upd_book world0] accepted_book
  by (simp add: upd_book_sel env_upload_fails_sel env_convert_fails_sel outputPath_book
      Base_book slug_example)

text \<open>
  The claim as stated (exactly one of rejection, failure, or completion message with
  the file, and no other message) fails in the run in which every step succeeds,
  where the progress message is an additional message, and in the run in which only
  the upload fails, where the user is sent the progress message, the completion
  message, the document and the failure message.
\<close>

theorem one_outcome_counterexample:
  "\<not> one_outcome 77 (sent_messages (run_events env_ok upd_book world0))
   \<and> \<not> one_outcome 77 (sent_messages (run_events env_upload_fails upd_book world0))
   \<and> sent_messages (run_events env_ok upd_book world0) =
       [TextMessage 77 start_text,
        TextMessage 77 (done_text @ ''http://example.org:11477/aB1''),
        DocumentMessage 77 ''1700000000_book.mobi'' [0x4D, 0x4F] caption_text]"
proof -
  have 1: "sent_messages (run_events env_ok upd_book world0) =
       [TextMessage 77 start_text,
        TextMessage 77 (done_text @ ''http://example.org:11477/aB1''),
        DocumentMessage 77 ''1700000000_book.mobi'' [0x4D, 0x4F] caption_text]"
    by (simp add: run_events_book)
  have 2: "sent_messages (run_events env_upload_fails upd_book world0) =
       [TextMessage 77 start_text,
        TextMessage 77 (done_text @ ''http://example.org:11477/aB1''),
        DocumentMessage 77 ''1700000000_book.mobi'' [0x4D, 0x4F] caption_text,
        TextMessage 77 failure_text]"
    by (rule sent_upload_fails)
  show ?thesis
    by (simp add: 1 2)
qed

subsection \<open>The file name of a download\<close>

text \<open>
  C10, as the code has it. After a run that registers its output, the response to a
  request for the generated slug names, in its \<^verbatim>\<open>Content-Disposition\<close> header, the
  base name of the registered output path; the multiplexer passes the request for a
  slash and the slug to the handler. That name is the last path element of time
  stamp, underscore and file name without extension, followed by \<^verbatim>\<open>.mobi\<close>; it is
  never the file name the user sent; and for a file name without a separator it is
  the time stamp, an underscore, the file name without its extension and \<^verbatim>\<open>.mobi\<close>.
\<close>

theorem download_filename:
  assumes "accepted (file_name upd)" "get_file env = Inr fp" "exit_err (wget env) = None"
    and "exit_err (ebook_convert env) = None" "entropy env = Inr f"
    and "url_path r = CHR ''/'' # fst (generateSlug (entropy env))"
  shows "headers (handler lib (handleDocument env upd w) r) ''Content-Disposition''
         = Some (''attachment; filename='' @ Base (outputPath_of (now_unix env) (file_name upd)))
    \<and> (escaped_path r = url_path r \<longrightarrow>
          serve lib (handleDocument env upd w) r = handler lib (handleDocument env upd w) r)
    \<and> Base (outputPath_of (now_unix env) (file_name upd))
        = stem (now_unix env) (file_name upd) @ ''.mobi''
    \<and> Base (outputPath_of (now_unix env) (file_name upd)) \<noteq> file_name upd
    \<and> (CHR ''/'' \<notin> set (file_name upd) \<longrightarrow>
          Base (outputPath_of (now_unix env) (file_name upd))
          = show_int (now_unix env) @ ''_'' @
            TrimSuffix (file_name upd) (Ext (file_name upd)) @ ''.mobi'')"
proof -
  have "serve lib (handleDocument env upd w) r = handler lib (handleDocument env upd w) r"
    if "escaped_path r = url_path r"
    using that cleanPath_slug [OF is_slug_generated [OF assms(5)]] assms(6)
    by (simp add: serve_clean)
  then show ?thesis
    using disposition_after_success [OF assms] Base_outputPath_not_name [OF assms(1)]
    by (simp add: Base_outputPath stem_plain)
qed

theorem download_filename_witness:
  "accepted ''book.fb2'' \<and> CHR ''/'' \<notin> set ''book.fb2''
   \<and> headers (serve lib_example (handleDocument env_ok upd_book world0) (get_request ''/aB1''))
        ''Content-Disposition''
       = Some ''attachment; filename=1700000000_book.mobi''
   \<and> show_int 1700000000 @ ''_'' @ TrimSuffix ''book.fb2'' (Ext ''book.fb2'') @ ''.mobi''
       = ''1700000000_book.mobi''"
proof -
  have a: "accepted (file_name upd_book)"
    using accepted_book by (simp add: upd_book_sel)
  have u: "url_path (get_request ''/aB1'') = CHR ''/'' # fst (generateSlug (entropy env_ok))"
    by (simp add: get_request_sel env_ok_sel slug_example)
  from download_filename [OF a env_ok_sel(2-4,7) u, of lib_example world0] show ?thesis
    using accepted_book
    by (simp add: upd_book_sel env_ok_sel get_request_sel outputPath_book Base_book
        show_int_example Ext_def TrimSuffix_def HasSuffix_def)
qed

text \<open>
  For a file name with a separator the header does not name the time stamp and the
  file name without extension: the document \<^verbatim>\<open>/../b.fb2\<close> is stored at
  \<^verbatim>\<open>uploads/b.mobi\<close> and downloaded as \<^verbatim>\<open>b.mobi\<close>.
\<close>

theorem download_filename_counterexample:
  "accepted ''/../b.fb2''
   \<and> headers (serve lib_example (handleDocument env_ok upd_sep world0) (get_request ''/aB1''))
        ''Content-Disposition''
       = Some ''attachment; filename=b.mobi''
   \<and> show_int (now_unix env_ok) @ ''_'' @
       TrimSuffix (file_name upd_sep) (Ext (file_name upd_sep)) @ ''.mobi''
       = ''1700000000_/../b.mobi''
   \<and> headers (serve lib_example (handleDocument env_ok upd_sep world0) (get_request ''/aB1''))
        ''Content-Disposition''
       \<noteq> Some (''attachment; filename='' @ show_int (now_unix env_ok) @ ''_'' @
           TrimSuffix (file_name upd_sep) (Ext (file_name upd_sep)) @ ''.mobi'')"
proof -
  have a: "accepted (file_name upd_sep)"
    using accepted_sep by (simp add: upd_sep_sel)
  have u: "url_path (get_request ''/aB1'') = CHR ''/'' # fst (generateSlug (entropy env_ok))"
    by (simp add: get_request_sel env_ok_sel slug_example)
  have s: "serve lib_example (handleDocument env_ok upd_sep world0) (get_request ''/aB1'')
      = handler lib_example (handleDocument env_ok upd_sep world0) (get_request ''/aB1'')"
    by (simp add: serve_clean get_request_sel cleanPath_examples)
  from disposition_after_success [OF a env_ok_sel(2-4,7) u, of lib_example world0] show ?thesis
    using accepted_sep plain_name_sep
    by (simp add: s upd_sep_sel env_ok_sel outputPath_sep Base_sep)
qed

subsection \<open>Retrieval\<close>

text \<open>
  C6, as the code has it. For a \<^verbatim>\<open>GET\<close> request whose path is clean, so that the
  multiplexer passes it to the handler (any other path is answered by a redirect to
  the cleaned path): when the path after its leading slash is empty or is not a key
  of the registry, the response is 404 with the plain-text body \<^verbatim>\<open>Not Found\<close>. When
  the path is a slash and a registered slug (of the shape \<^verbatim>\<open>generateSlug\<close>
  produces), the response names the base name of the registered path in its
  \<^verbatim>\<open>Content-Disposition\<close> header; if the registered file is not on disk,
  \<^verbatim>\<open>http.ServeFile\<close> answers 404; if it is on disk and the request has no range and
  no conditional header, the response is 200 with the file's bytes as body and the
  content type \<^verbatim>\<open>application/x-mobipocket-ebook\<close> (a request with such a header gets
  what \<^verbatim>\<open>net/http\<close> answers to it: a part of the file, or no body).
\<close>

theorem retrieval_response:
  assumes "http_method r = ''GET''" "cleanPath (escaped_path r) = escaped_path r"
  shows "(TrimPrefix (url_path r) ''/'' = '''' \<or> files w (TrimPrefix (url_path r) ''/'') = None \<longrightarrow>
            status (serve lib w r) = 404
          \<and> headers (serve lib w r) ''Content-Type'' = Some ''text/plain; charset=utf-8''
          \<and> body (serve lib w r) = bytes_of (''Not Found'' @ [CHR 0x0A]))
    \<and> (\<forall>slug fp. url_path r = CHR ''/'' # slug \<and> is_slug slug \<and> files w slug = Some fp \<longrightarrow>
          headers (serve lib w r) ''Content-Disposition''
            = Some (''attachment; filename='' @ Base fp)
        \<and> (case disk w fp of
             Some b \<Rightarrow>
               \<not> conditional r \<longrightarrow>
                 status (serve lib w r) = 200 \<and> body (serve lib w r) = b
                 \<and> headers (serve lib w r) ''Content-Type''
                     = Some ''application/x-mobipocket-ebook''
           | None \<Rightarrow> status (serve lib w r) = 404))"
proof (intro conjI allI impI)
  note s = serve_clean [OF assms(2), of lib w]
  {
    assume "TrimPrefix (url_path r) ''/'' = '''' \<or> files w (TrimPrefix (url_path r) ''/'') = None"
    from handler_miss [OF this, of lib]
    show "status (serve lib w r) = 404"
      and "headers (serve lib w r) ''Content-Type'' = Some ''text/plain; charset=utf-8''"
      and "body (serve lib w r) = bytes_of (''Not Found'' @ [CHR 0x0A])"
      by (simp_all add: s http_Error_def)
  }
  fix slug fp
  assume h: "url_path r = CHR ''/'' # slug \<and> is_slug slug \<and> files w slug = Some fp"
  then have h': "url_path r = CHR ''/'' # slug" "is_slug slug" "files w slug = Some fp"
    by simp_all
  show "headers (serve lib w r) ''Content-Disposition''
      = Some (''attachment; filename='' @ Base fp)"
    unfolding s by (rule handler_disposition [OF h'])
  show "case disk w fp of
          None \<Rightarrow> status (serve lib w r) = 404
        | Some b \<Rightarrow>
            \<not> conditional r \<longrightarrow>
              status (serve lib w r) = 200 \<and> body (serve lib w r) = b
              \<and> headers (serve lib w r) ''Content-Type''
                  = Some ''application/x-mobipocket-ebook''"
    using assms(1) by (simp add: s handler_hit [OF h'] http_Error_def split: option.splits)
qed

theorem retrieval_response_witness:
  "status (serve lib_example (handleDocument env_ok upd_book world0) (get_request ''/aB1'')) = 200
   \<and> body (serve lib_example (handleDocument env_ok upd_book world0) (get_request ''/aB1''))
       = [0x4D, 0x4F]
   \<and> headers (serve lib_example (handleDocument env_ok upd_book world0) (get_request ''/aB1''))
        ''Content-Disposition''
       = Some ''attachment; filename=1700000000_book.mobi''
   \<and> headers (serve lib_example (handleDocument env_ok upd_book world0) (get_request ''/aB1''))
        ''Content-Type''
       = Some ''application/x-mobipocket-ebook''
   \<and> status (serve lib_example (handleDocument env_ok upd_book world0) (get_request ''/'')) = 404
   \<and> status (serve lib_example (handleDocument env_ok upd_book world0) (get_request ''/zzz'')) = 404
   \<and> body (serve lib_example (handleDocument env_ok upd_book world0) (get_request ''/zzz''))
       = bytes_of (''Not Found'' @ [CHR 0x0A])"
proof -
  have c: "cleanPath (escaped_path (get_request ''/aB1'')) = escaped_path (get_request ''/aB1'')"
    "cleanPath (escaped_path (get_request ''/'')) = escaped_path (get_request ''/'')"
    "cleanPath (escaped_path (get_request ''/zzz'')) = escaped_path (get_request ''/zzz'')"
    by (simp_all add: get_request_sel cleanPath_examples)
  note hit = retrieval_response [OF get_request_sel(1) c(1), of "handleDocument env_ok upd_book world0"
      lib_example, THEN conjunct2, rule_format, of "''aB1''" "''uploads/1700000000_book.mobi''"]
  note miss1 = retrieval_response [OF get_request_sel(1) c(2), of "handleDocument env_ok upd_book world0"
      lib_example, THEN conjunct1]
  note miss2 = retrieval_response [OF get_request_sel(1) c(3), of "handleDocument env_ok upd_book world0"
      lib_example, THEN conjunct1]
  from hit miss1 miss2 show ?thesis
    by (simp add: one_run_state is_slug_example Base_book get_request_sel TrimPrefix_def
        HasPrefix_def)
qed

text \<open>
  A registered slug alone does not give the file: after a run that registers
  \<^verbatim>\<open>aB1\<close> and a second run for a document of the same name in the same second whose
  conversion fails, the output file of the first run is removed by the cleanup of the
  second, the slug is still registered, and the request for it is answered 404.
\<close>

theorem retrieval_counterexample:
  "files (handleDocument env_convert_fails upd_book (handleDocument env_ok upd_book world0)) ''aB1''
     = Some ''uploads/1700000000_book.mobi''
   \<and> status (serve lib_example
        (handleDocument env_convert_fails upd_book (handleDocument env_ok upd_book world0))
        (get_request ''/aB1'')) = 404
   \<and> body (serve lib_example
        (handleDocument env_convert_fails upd_book (handleDocument env_ok upd_book world0))
        (get_request ''/aB1'')) = bytes_of (''404 page not found'' @ [CHR 0x0A])"
proof -
  have s: "serve lib_example
        (handleDocument env_convert_fails upd_book (handleDocument env_ok upd_book world0))
        (get_request ''/aB1'')
      = handler lib_example
        (handleDocument env_convert_fails upd_book (handleDocument env_ok upd_book world0))
        (get_request ''/aB1'')"
    by (simp add: serve_clean get_request_sel cleanPath_examples)
  have "url_path (get_request ''/aB1'') = CHR ''/'' # ''aB1''"
    by (simp add: get_request_sel)
  from handler_hit [OF this is_slug_example two_runs_state(1), of lib_example] show ?thesis
    by (simp add: s two_runs_state http_Error_def)
qed

end
